theory Spec2Isabelle
  imports Main
begin

section \<open>The audio downloader base class (downloaders/downloader.py)\<close>

text \<open>
  A shallow embedding of \<^verbatim>\<open>src/downloaders/downloader.py\<close>. A Python \<^verbatim>\<open>str\<close> is
  represented by the sequence of its UTF-8 bytes, a \<^verbatim>\<open>bytes\<close> object by its bytes; both
  are HOL strings. A method is a function of the environment (what the module imports and
  what the outside world answers), of the world state (requests issued, files present) and
  of the object; it returns the raised exception or the result, the new world and the new
  object.
\<close>

subsection \<open>Exceptions\<close>

text \<open>
  The exceptions that reach the code. \<^verbatim>\<open>HTTPError\<close> is a subclass of \<^verbatim>\<open>URLError\<close>, so
  \<^verbatim>\<open>except urllib.error.URLError\<close> catches both.
\<close>

datatype exn =
    NotImplementedError string
  | ValueError string
  | TypeError string
  | KeyError string
  | URLError string
  | HTTPError int string
  | FileExistsError string
  | OSError string

fun is_URLError :: "exn \<Rightarrow> bool" where
  "is_URLError (URLError _) = True"
| "is_URLError (HTTPError _ _) = True"
| "is_URLError _ = False"

subsection \<open>Strings\<close>

text \<open>
  The operations of \<^verbatim>\<open>str\<close> and \<^verbatim>\<open>list\<close> the code and the library use.
  \<open>before c s\<close> is \<^verbatim>\<open>s[:s.find(c)]\<close> and \<open>after c s\<close> is \<^verbatim>\<open>s[s.find(c)+1:]\<close> when
  \<^verbatim>\<open>c in s\<close>; together they are \<^verbatim>\<open>s.split(c, 1)\<close>. When \<^verbatim>\<open>c\<close> is not in \<^verbatim>\<open>s\<close>,
  \<open>before c s\<close> is \<^verbatim>\<open>s.partition(c)[0]\<close>, the whole of \<^verbatim>\<open>s\<close>.
\<close>

definition before :: "char \<Rightarrow> string \<Rightarrow> string" where
  "before c s = takeWhile (\<lambda>x. x \<noteq> c) s"

definition after :: "char \<Rightarrow> string \<Rightarrow> string" where
  "after c s = tl (dropWhile (\<lambda>x. x \<noteq> c) s)"

text \<open>\<^verbatim>\<open>s.split(c)\<close>: all the pieces between occurrences of \<^verbatim>\<open>c\<close>, never an empty list.\<close>

fun split_on :: "char \<Rightarrow> string \<Rightarrow> string list" where
  "split_on c [] = [[]]"
| "split_on c (x # xs) =
     (if x = c then [] # split_on c xs
      else (case split_on c xs of
              [] \<Rightarrow> [[x]]
            | piece # pieces \<Rightarrow> (x # piece) # pieces))"

text \<open>\<^verbatim>\<open>sep.join(pieces)\<close>\<close>

fun join_with :: "string \<Rightarrow> string list \<Rightarrow> string" where
  "join_with sep [] = []"
| "join_with sep [piece] = piece"
| "join_with sep (piece # pieces) = piece @ sep @ join_with sep pieces"

definition ascii_uppercase :: string where
  "ascii_uppercase = ''ABCDEFGHIJKLMNOPQRSTUVWXYZ''"

definition ascii_lowercase :: string where
  "ascii_lowercase = ''abcdefghijklmnopqrstuvwxyz''"

definition digits :: string where
  "digits = ''0123456789''"

text \<open>\<^verbatim>\<open>s.lower()\<close>, for the ASCII strings it is applied to.\<close>

definition lower :: "string \<Rightarrow> string" where
  "lower s = map (\<lambda>c. case map_of (zip ascii_uppercase ascii_lowercase) c of
                         None \<Rightarrow> c | Some l \<Rightarrow> l) s"

text \<open>\<^verbatim>\<open>str(n)\<close> of an integer: its decimal digits, after a minus sign when negative.\<close>

fun str_nat :: "nat \<Rightarrow> string" where
  "str_nat n = (if n < 10 then [digits ! n] else str_nat (n div 10) @ [digits ! (n mod 10)])"

declare str_nat.simps [simp del]

definition str :: "int \<Rightarrow> string" where
  "str i = (if i < 0 then CHR ''-'' # str_nat (nat (- i)) else str_nat (nat i))"

text \<open>
  \<^verbatim>\<open>str(e)\<close> of an exception: the message it was built with, but for \<^verbatim>\<open>KeyError\<close>,
  which shows the key in quotes, \<^verbatim>\<open>URLError\<close> and \<^verbatim>\<open>HTTPError\<close>, whose
  \<^verbatim>\<open>__str__\<close> are \<^verbatim>\<open>'<urlopen error %s>' % self.reason\<close> and
  \<^verbatim>\<open>'HTTP Error %s: %s' % (self.code, self.msg)\<close>, and \<^verbatim>\<open>FileExistsError\<close>, built
  by \<^verbatim>\<open>tempfile\<close> with \<^verbatim>\<open>errno.EEXIST\<close>.
\<close>

fun str_exn :: "exn \<Rightarrow> string" where
  "str_exn (NotImplementedError m) = m"
| "str_exn (ValueError m) = m"
| "str_exn (TypeError m) = m"
| "str_exn (KeyError k) = [CHR 0x27] @ k @ [CHR 0x27]"
| "str_exn (URLError reason) = ''<urlopen error '' @ reason @ ''>''"
| "str_exn (HTTPError c m) = ''HTTP Error '' @ str c @ '': '' @ m"
| "str_exn (FileExistsError m) = ''[Errno 17] '' @ m"
| "str_exn (OSError m) = m"

subsection \<open>uniqify\_list\<close>

text \<open>
  \<^verbatim>\<open>no_dupes = []\<close>
  \<^verbatim>\<open>[no_dupes.append(i) for i in seq if not no_dupes.count(i)]\<close>
  \<^verbatim>\<open>return no_dupes\<close>
  The comprehension is a loop over \<^verbatim>\<open>seq\<close> that mutates \<^verbatim>\<open>no_dupes\<close>; the list of
  \<^verbatim>\<open>None\<close>s it builds is thrown away.
\<close>

fun uniqify_loop :: "'a list \<Rightarrow> 'a list \<Rightarrow> 'a list" where
  "uniqify_loop no_dupes [] = no_dupes"
| "uniqify_loop no_dupes (i # seq) =
     uniqify_loop (if count_list no_dupes i = 0 then no_dupes @ [i] else no_dupes) seq"

definition uniqify_list :: "'a list \<Rightarrow> 'a list" where
  "uniqify_list seq = uniqify_loop [] seq"

text \<open>Position \<open>i\<close> of \<open>xs\<close> holds a first occurrence: its element is at no earlier position.\<close>

definition first_occurrence :: "'a list \<Rightarrow> nat \<Rightarrow> bool" where
  "first_occurrence xs i = (xs ! i \<notin> set (take i xs))"

subsection \<open>The downloader object\<close>

text \<open>
  The fields \<^verbatim>\<open>__init__\<close> sets. An entry of \<^verbatim>\<open>downloads_list\<close> is a triple of
  file path, base name and a dictionary of extras. \<^verbatim>\<open>site_icon\<close> is \<^verbatim>\<open>None\<close> or a
  \<^verbatim>\<open>QImage\<close>; the image type is a parameter. \<^verbatim>\<open>QImage\<close> defines neither
  \<^verbatim>\<open>__bool__\<close> nor \<^verbatim>\<open>__len__\<close>, so \<^verbatim>\<open>if self.site_icon:\<close> tests that the field is
  not \<^verbatim>\<open>None\<close>.
\<close>

record 'img AudioDownloader =
  language :: string
  downloads_list :: "(string \<times> string \<times> (string \<times> string) list) list"
  display_text :: string
  base_name :: string
  file_extension :: string
  url :: string
  icon_url :: string
  max_icon_size :: int
  user_agent :: string
  use_temp_files :: bool
  download_directory :: "string option"
  show_skull_and_bones :: bool
  site_icon :: "'img option"

definition init :: "'img AudioDownloader" where
  "init = \<lparr> language = '''', downloads_list = [], display_text = '''', base_name = '''',
     file_extension = ''.wav'', url = '''', icon_url = '''', max_icon_size = 20,
     user_agent = ''Mozilla/5.0'', use_temp_files = False, download_directory = None,
     show_skull_and_bones = False, site_icon = None \<rparr>"

subsection \<open>The world and the environment\<close>

record request =
  full_url :: string
  headers :: "(string \<times> string) list"

record response =
  code :: int
  msg :: string
  body :: string

text \<open>
  The world state: the requests passed to \<^verbatim>\<open>urlopen\<close> so far, oldest first, the paths
  of the files that exist, and how many candidate names the temporary-file module has
  drawn.
\<close>

record world =
  requests :: "request list"
  files :: "string list"
  names_drawn :: nat

text \<open>
  The environment: what lies outside the file.
  \<^item> \<open>with_pyqt\<close>: whether the import of PyQt5 at module load succeeded.
  \<^item> \<open>Request_error\<close>: the exception \<^verbatim>\<open>urllib.request.Request(url)\<close> raises for a URL
    it rejects (\<^verbatim>\<open>ValueError\<close> for an unknown URL type), if any.
  \<^item> \<open>http_open\<close>: what the HTTP(S) handler of \<^verbatim>\<open>urllib.request\<close> obtains for a
    request, given the requests made before, redirects followed: it raises (a
    \<^verbatim>\<open>URLError\<close> for a connection that fails), or the server's response arrives, with
    its status code, its reason phrase and the body that \<^verbatim>\<open>read()\<close> returns in full.
    What \<^verbatim>\<open>urlopen\<close> makes of the response is \<open>urlopen\<close> below. Requests by other
    schemes (\<^verbatim>\<open>file:\<close>, \<^verbatim>\<open>ftp:\<close>, \<^verbatim>\<open>data:\<close>), whose results carry no status, are not
    modelled.
  \<^item> \<open>soup_find_link_icon\<close>: BeautifulSoup's
    \<^verbatim>\<open>soup(page, "html.parser").find(name='link', attrs={'rel': 'icon'})\<close>: \<^verbatim>\<open>None\<close>, or
    the attributes of the tag found.
  \<^item> \<open>fromData\<close>, \<open>img_size\<close>, \<open>scaled\<close>: \<^verbatim>\<open>QImage.fromData\<close>, the width and height of
    \<^verbatim>\<open>QImage.size()\<close>, and \<^verbatim>\<open>QImage.scaled\<close> to a bounding box, keeping the aspect
    ratio, with smooth transformation.
  \<^item> \<open>check_bracketed_host\<close>, \<open>checknetloc_nfkc\<close>: the two checks of
    \<^verbatim>\<open>urllib.parse.urlsplit\<close> that rest on the \<^verbatim>\<open>ipaddress\<close> and \<^verbatim>\<open>unicodedata\<close>
    modules: the \<^verbatim>\<open>ValueError\<close> raised for a bracketed host, and for a network location
    that is not ASCII, if any.
  \<^item> \<open>TMP_MAX\<close>, \<open>tempdir\<close>, \<open>candidate_names\<close>, \<open>os_open_error\<close>: of the
    \<^verbatim>\<open>tempfile\<close> module, the number of names tried, the absolute path
    \<^verbatim>\<open>gettempdir()\<close> returns, the sequence of random names, and the error with which
    creating a file that does not exist yet fails, if any.
  \<^item> \<open>free_media_name\<close>: the function of that name in \<^verbatim>\<open>..exists\<close>, which is not among
    the files here; given the files present, a base name and an extension it raises or
    returns a pair of path and file name.
\<close>

record 'img env =
  with_pyqt :: bool
  Request_error :: "string \<Rightarrow> exn option"
  http_open :: "request list \<Rightarrow> request \<Rightarrow> exn + response"
  soup_find_link_icon :: "string \<Rightarrow> (string \<times> string) list option"
  fromData :: "string \<Rightarrow> 'img"
  img_size :: "'img \<Rightarrow> int \<times> int"
  scaled :: "'img \<Rightarrow> int \<times> int \<Rightarrow> 'img"
  check_bracketed_host :: "string \<Rightarrow> exn option"
  checknetloc_nfkc :: "string \<Rightarrow> exn option"
  TMP_MAX :: nat
  tempdir :: string
  candidate_names :: "nat \<Rightarrow> string"
  os_open_error :: "string \<Rightarrow> exn option"
  free_media_name :: "string list \<Rightarrow> string \<Rightarrow> string \<Rightarrow> exn + (string \<times> string)"

subsection \<open>urllib.parse of the standard library\<close>

text \<open>
  \<^verbatim>\<open>urlsplit\<close>, \<^verbatim>\<open>urljoin\<close> and \<^verbatim>\<open>quote\<close> as CPython 3.11 defines them in
  \<^verbatim>\<open>Lib/urllib/parse.py\<close>, for \<^verbatim>\<open>str\<close> arguments and \<^verbatim>\<open>allow_fragments=True\<close>.
  The cache of \<^verbatim>\<open>urlsplit\<close> does not change what it returns and is left out. The
  library's local variable \<^verbatim>\<open>url\<close> is written \<open>url'\<close> here and its \<^verbatim>\<open>netloc\<close> is
  written \<open>nl\<close>, \<open>url\<close> and \<open>netloc\<close> being the downloader's field and the accessor of
  the split result; an assignment to a variable is a new binding of its name.
\<close>

definition uses_relative :: "string list" where
  "uses_relative = ['''', ''ftp'', ''http'', ''gopher'', ''nntp'', ''imap'',
     ''wais'', ''file'', ''https'', ''shttp'', ''mms'',
     ''prospero'', ''rtsp'', ''rtsps'', ''rtspu'', ''sftp'',
     ''svn'', ''svn+ssh'', ''ws'', ''wss'']"

definition uses_netloc :: "string list" where
  "uses_netloc = ['''', ''ftp'', ''http'', ''gopher'', ''nntp'', ''telnet'',
     ''imap'', ''wais'', ''file'', ''mms'', ''https'', ''shttp'',
     ''snews'', ''prospero'', ''rtsp'', ''rtsps'', ''rtspu'', ''rsync'',
     ''svn'', ''svn+ssh'', ''sftp'', ''nfs'', ''git'', ''git+ssh'',
     ''ws'', ''wss'']"

definition uses_params :: "string list" where
  "uses_params = ['''', ''ftp'', ''hdl'', ''prospero'', ''http'', ''imap'',
     ''https'', ''shttp'', ''rtsp'', ''rtsps'', ''rtspu'', ''sip'',
     ''sips'', ''mms'', ''sftp'', ''tel'']"

definition scheme_chars :: string where
  "scheme_chars = ascii_lowercase @ ascii_uppercase @ digits @ ''+-.''"

text \<open>The characters from \<^verbatim>\<open>\x00\<close> to the space, and tab, carriage return and newline.\<close>

definition WHATWG_C0_CONTROL_OR_SPACE :: "char \<Rightarrow> bool" where
  "WHATWG_C0_CONTROL_OR_SPACE c = (of_char c \<le> (32 :: nat))"

definition UNSAFE_URL_BYTES_TO_REMOVE :: string where
  "UNSAFE_URL_BYTES_TO_REMOVE = [CHR 0x09, CHR 0x0D, CHR 0x0A]"

type_synonym SplitResult = "string \<times> string \<times> string \<times> string \<times> string"

type_synonym ParseResult = "string \<times> string \<times> string \<times> string \<times> string \<times> string"

definition netloc :: "SplitResult \<Rightarrow> string" where
  "netloc r = fst (snd r)"

text \<open>
  \<^verbatim>\<open>_splitnetloc(url, 2)\<close>: the network location runs from position 2 to the first of
  \<^verbatim>\<open>/\<close>, \<^verbatim>\<open>?\<close> and \<^verbatim>\<open>#\<close> after it, or to the end.
\<close>

definition splitnetloc :: "string \<Rightarrow> string \<times> string" where
  "splitnetloc url' =
     (takeWhile (\<lambda>c. c \<notin> set ''/?#'') (drop 2 url'),
      dropWhile (\<lambda>c. c \<notin> set ''/?#'') (drop 2 url'))"

text \<open>The checks of brackets in the network location; the last is \<^verbatim>\<open>_check_bracketed_host\<close>.\<close>

definition check_brackets :: "'img env \<Rightarrow> string \<Rightarrow> exn option" where
  "check_brackets env nl =
     (if (CHR ''['' \<in> set nl \<and> CHR '']'' \<notin> set nl) \<or> (CHR '']'' \<in> set nl \<and> CHR ''['' \<notin> set nl)
      then Some (ValueError ''Invalid IPv6 URL'')
      else if CHR ''['' \<in> set nl \<and> CHR '']'' \<in> set nl
      then check_bracketed_host env (before CHR '']'' (after CHR ''['' nl))
      else None)"

definition checknetloc :: "'img env \<Rightarrow> string \<Rightarrow> exn option" where
  "checknetloc env nl =
     (if nl = [] \<or> list_all (\<lambda>c. of_char c < (128 :: nat)) nl then None
      else checknetloc_nfkc env nl)"

definition urlsplit :: "'img env \<Rightarrow> string \<Rightarrow> string \<Rightarrow> exn + SplitResult" where
  "urlsplit env url_in scheme_in =
     (let url' = dropWhile WHATWG_C0_CONTROL_OR_SPACE url_in;
          scheme = rev (dropWhile WHATWG_C0_CONTROL_OR_SPACE
                     (rev (dropWhile WHATWG_C0_CONTROL_OR_SPACE scheme_in)));
          url' = filter (\<lambda>c. c \<notin> set UNSAFE_URL_BYTES_TO_REMOVE) url';
          scheme = filter (\<lambda>c. c \<notin> set UNSAFE_URL_BYTES_TO_REMOVE) scheme;
          has_scheme = (CHR '':'' \<in> set url' \<and> before CHR '':'' url' \<noteq> []
                        \<and> hd url' \<in> set (ascii_lowercase @ ascii_uppercase)
                        \<and> list_all (\<lambda>c. c \<in> set scheme_chars) (before CHR '':'' url'));
          scheme = (if has_scheme then lower (before CHR '':'' url') else scheme);
          url' = (if has_scheme then after CHR '':'' url' else url');
          slashes = (take 2 url' = ''//'');
          nl = (if slashes then fst (splitnetloc url') else []);
          url' = (if slashes then snd (splitnetloc url') else url')
      in case (if slashes then check_brackets env nl else None) of
           Some e \<Rightarrow> Inl e
         | None \<Rightarrow>
            (let fragment = (if CHR ''#'' \<in> set url' then after CHR ''#'' url' else []);
                 url' = (if CHR ''#'' \<in> set url' then before CHR ''#'' url' else url');
                 query = (if CHR ''?'' \<in> set url' then after CHR ''?'' url' else []);
                 url' = (if CHR ''?'' \<in> set url' then before CHR ''?'' url' else url')
             in case checknetloc env nl of
                  Some e \<Rightarrow> Inl e
                | None \<Rightarrow> Inr (scheme, nl, url', query, fragment)))"

text \<open>
  \<^verbatim>\<open>_splitparams\<close>, called when \<^verbatim>\<open>;\<close> is in \<^verbatim>\<open>url\<close>: the split is at the first
  \<^verbatim>\<open>;\<close> at or after the last \<^verbatim>\<open>/\<close>, position \<open>r\<close>.
\<close>

definition splitparams :: "string \<Rightarrow> string \<times> string" where
  "splitparams url' =
     (if CHR ''/'' \<in> set url' then
        (let r = length url' - 1 - length (takeWhile (\<lambda>c. c \<noteq> CHR ''/'') (rev url'))
         in if CHR '';'' \<in> set (drop r url')
            then (take r url' @ before CHR '';'' (drop r url'), after CHR '';'' (drop r url'))
            else (url', []))
      else (before CHR '';'' url', after CHR '';'' url'))"

definition urlparse :: "'img env \<Rightarrow> string \<Rightarrow> string \<Rightarrow> exn + ParseResult" where
  "urlparse env url_in scheme_in =
     (case urlsplit env url_in scheme_in of
        Inl e \<Rightarrow> Inl e
      | Inr (scheme, nl, url', query, fragment) \<Rightarrow>
          if scheme \<in> set uses_params \<and> CHR '';'' \<in> set url'
          then Inr (scheme, nl, fst (splitparams url'), snd (splitparams url'), query, fragment)
          else Inr (scheme, nl, url', [], query, fragment))"

definition urlunsplit :: "SplitResult \<Rightarrow> string" where
  "urlunsplit components =
     (case components of (scheme, nl, url', query, fragment) \<Rightarrow>
        (let url' = (if nl \<noteq> [] \<or> (scheme \<noteq> [] \<and> scheme \<in> set uses_netloc) \<or> take 2 url' = ''//''
                    then ''//'' @ nl @ (if url' \<noteq> [] \<and> take 1 url' \<noteq> ''/'' then ''/'' @ url' else url')
                    else url');
             url' = (if scheme \<noteq> [] then scheme @ '':'' @ url' else url');
             url' = (if query \<noteq> [] then url' @ ''?'' @ query else url');
             url' = (if fragment \<noteq> [] then url' @ ''#'' @ fragment else url')
         in url'))"

definition urlunparse :: "ParseResult \<Rightarrow> string" where
  "urlunparse components =
     (case components of (scheme, nl, url', params, query, fragment) \<Rightarrow>
        urlunsplit (scheme, nl, (if params \<noteq> [] then url' @ '';'' @ params else url'),
                    query, fragment))"

text \<open>
  The loop of \<^verbatim>\<open>urljoin\<close> over the segments: \<^verbatim>\<open>..\<close> pops the last resolved segment
  (nothing, when there is none), \<^verbatim>\<open>.\<close> is skipped, any other segment is appended.
\<close>

fun resolve_segments :: "string list \<Rightarrow> string list \<Rightarrow> string list" where
  "resolve_segments resolved_path [] = resolved_path"
| "resolve_segments resolved_path (seg # segments) =
     (if seg = ''..'' then resolve_segments (butlast resolved_path) segments
      else if seg = ''.'' then resolve_segments resolved_path segments
      else resolve_segments (resolved_path @ [seg]) segments)"

text \<open>\<^verbatim>\<open>segments[1:-1] = filter(None, segments[1:-1])\<close>\<close>

definition drop_empty_inner :: "string list \<Rightarrow> string list" where
  "drop_empty_inner segments =
     (if length segments < 2 then segments
      else hd segments # filter (\<lambda>seg. seg \<noteq> []) (butlast (tl segments)) @ [last segments])"

definition urljoin :: "'img env \<Rightarrow> string \<Rightarrow> string \<Rightarrow> exn + string" where
  "urljoin env base url_in =
     (if base = [] then Inr url_in
      else if url_in = [] then Inr base
      else case urlparse env base [] of
        Inl e \<Rightarrow> Inl e
      | Inr (bscheme, bnetloc, bpath, bparams, bquery, bfragment) \<Rightarrow>
       (case urlparse env url_in bscheme of
          Inl e \<Rightarrow> Inl e
        | Inr (scheme, nl, path, params, query, fragment) \<Rightarrow>
            if scheme \<noteq> bscheme \<or> scheme \<notin> set uses_relative then Inr url_in
            else if scheme \<in> set uses_netloc \<and> nl \<noteq> []
            then Inr (urlunparse (scheme, nl, path, params, query, fragment))
            else
             (let nl = (if scheme \<in> set uses_netloc then bnetloc else nl)
              in if path = [] \<and> params = []
                 then Inr (urlunparse (scheme, nl, bpath, bparams,
                             (if query = [] then bquery else query), fragment))
                 else
                  (let base_parts = split_on CHR ''/'' bpath;
                       base_parts = (if last base_parts \<noteq> [] then butlast base_parts
                                     else base_parts);
                       segments = (if take 1 path = ''/'' then split_on CHR ''/'' path
                                   else drop_empty_inner (base_parts @ split_on CHR ''/'' path));
                       resolved_path = resolve_segments [] segments;
                       resolved_path = (if last segments \<in> {''.'', ''..''}
                                        then resolved_path @ [[]] else resolved_path);
                       joined = join_with ''/'' resolved_path
                   in Inr (urlunparse (scheme, nl, (if joined = [] then ''/'' else joined),
                             params, query, fragment))))))"

text \<open>
  \<^verbatim>\<open>quote(string)\<close> with the default \<^verbatim>\<open>safe='/'\<close>: every byte that is not a letter, a
  digit, one of \<^verbatim>\<open>_.-~\<close> or \<^verbatim>\<open>/\<close> becomes \<^verbatim>\<open>%\<close> and its two upper-case hexadecimal
  digits.
\<close>

definition ALWAYS_SAFE :: string where
  "ALWAYS_SAFE = ascii_uppercase @ ascii_lowercase @ digits @ ''_.-~''"

definition quoter :: "char \<Rightarrow> string" where
  "quoter b =
     (if b \<in> set (ALWAYS_SAFE @ ''/'') then [b]
      else [CHR ''%'', ''0123456789ABCDEF'' ! (of_char b div 16),
            ''0123456789ABCDEF'' ! (of_char b mod 16)])"

definition quote :: "string \<Rightarrow> string" where
  "quote string = concat (map quoter string)"

subsection \<open>urllib.request\<close>

definition Request :: "'img env \<Rightarrow> string \<Rightarrow> exn + request" where
  "Request env u =
     (case Request_error env u of
        Some e \<Rightarrow> Inl e
      | None \<Rightarrow> Inr \<lparr> full_url = u, headers = [] \<rparr>)"

text \<open>\<^verbatim>\<open>d[k] = v\<close> on a dictionary kept as an association list.\<close>

fun dict_set :: "'k \<Rightarrow> 'v \<Rightarrow> ('k \<times> 'v) list \<Rightarrow> ('k \<times> 'v) list" where
  "dict_set k v [] = [(k, v)]"
| "dict_set k v ((k', v') # kvs) =
     (if k' = k then (k, v) # kvs else (k', v') # dict_set k v kvs)"

text \<open>\<^verbatim>\<open>s.capitalize()\<close> for an ASCII string: the first character upper, the rest lower.\<close>

definition capitalize :: "string \<Rightarrow> string" where
  "capitalize s =
     (case s of
        [] \<Rightarrow> []
      | c # cs \<Rightarrow> (case map_of (zip ascii_lowercase ascii_uppercase) c of
                    None \<Rightarrow> c | Some u \<Rightarrow> u) # lower cs)"

text \<open>\<^verbatim>\<open>self.headers[key.capitalize()] = val\<close>\<close>

definition add_header :: "string \<Rightarrow> string \<Rightarrow> request \<Rightarrow> request" where
  "add_header key val req = req\<lparr>headers := dict_set (capitalize key) val (headers req)\<rparr>"

text \<open>
  \<^verbatim>\<open>urllib.request.urlopen\<close> with the default opener. Its last step is
  \<^verbatim>\<open>HTTPErrorProcessor.http_response\<close>: a response whose status is not from 200 to 299
  goes to the error handlers, and \<^verbatim>\<open>HTTPDefaultErrorHandler\<close> raises
  \<^verbatim>\<open>HTTPError(req.full_url, code, msg, hdrs, fp)\<close>. So \<^verbatim>\<open>urlopen\<close> returns only
  responses with a status from 200 to 299.
\<close>

definition urlopen :: "'img env \<Rightarrow> request list \<Rightarrow> request \<Rightarrow> exn + response" where
  "urlopen env history req =
     (case http_open env history req of
        Inl e \<Rightarrow> Inl e
      | Inr response \<Rightarrow>
          if \<not> (200 \<le> code response \<and> code response < 300)
          then Inl (HTTPError (code response) (msg response))
          else Inr response)"

text \<open>A call of \<^verbatim>\<open>urlopen\<close>: the world answers and records the request.\<close>

definition call_urlopen :: "'img env \<Rightarrow> world \<Rightarrow> request \<Rightarrow> (exn + response) \<times> world" where
  "call_urlopen env w req = (urlopen env (requests w) req, w\<lparr>requests := requests w @ [req]\<rparr>)"

subsection \<open>download\_files and set\_names\<close>

definition download_files ::
  "world \<Rightarrow> 'img AudioDownloader \<Rightarrow> string \<Rightarrow> string \<Rightarrow> string \<Rightarrow> bool \<Rightarrow>
     (exn + unit) \<times> world \<times> 'img AudioDownloader" where
  "download_files w self word base ruby split =
     (Inl (NotImplementedError ''Use a class derived from this.''), w, self)"

definition set_names ::
  "'img AudioDownloader \<Rightarrow> string \<Rightarrow> string \<Rightarrow> string \<Rightarrow> 'img AudioDownloader" where
  "set_names self text dummy_base dummy_ruby =
     (self\<lparr>base_name := text\<rparr>)\<lparr>display_text := text\<rparr>"

subsection \<open>The site icon\<close>

text \<open>
  The last statements of \<^verbatim>\<open>maybe_get_icon\<close> and of \<^verbatim>\<open>get_favicon\<close>, the same in both:
  the image decoded from the data is stored, and replaced by a scaled one when it is wider
  or higher than \<^verbatim>\<open>max_icon_size\<close>.
\<close>

definition store_icon ::
  "'img env \<Rightarrow> 'img AudioDownloader \<Rightarrow> string \<Rightarrow> 'img AudioDownloader" where
  "store_icon env self data =
     (let self1 = self\<lparr>site_icon := Some (fromData env data)\<rparr>;
          max_size = (max_icon_size self1, max_icon_size self1);
          icon_size = img_size env (fromData env data)
      in if fst icon_size > fst max_size \<or> snd icon_size > snd max_size
         then self1\<lparr>site_icon := Some (scaled env (fromData env data) max_size)\<rparr>
         else self1)"

text \<open>\<^verbatim>\<open>if self.user_agent: request.add_header('User-agent', self.user_agent)\<close>\<close>

definition maybe_add_user_agent :: "'img AudioDownloader \<Rightarrow> request \<Rightarrow> request" where
  "maybe_add_user_agent self req =
     (if user_agent self \<noteq> [] then add_header ''User-agent'' (user_agent self) req else req)"

definition get_favicon ::
  "'img env \<Rightarrow> world \<Rightarrow> 'img AudioDownloader \<Rightarrow> (exn + unit) \<times> world \<times> 'img AudioDownloader" where
  "get_favicon env w self =
     (if site_icon self \<noteq> None then (Inr (), w, self)
      else if \<not> with_pyqt env then (Inr (), w, self\<lparr>site_icon := None\<rparr>)
      else case urljoin env (icon_url self) ''/favicon.ico'' of
        Inl e \<Rightarrow> (Inl e, w, self)
      | Inr ico_url \<Rightarrow>
       (case Request env ico_url of
          Inl e \<Rightarrow> (Inl e, w, self)
        | Inr ico_request \<Rightarrow>
         (case call_urlopen env w (maybe_add_user_agent self ico_request) of
            (Inl e, w1) \<Rightarrow> (Inl e, w1, self)
          | (Inr ico_response, w1) \<Rightarrow>
              if 200 \<noteq> code ico_response then (Inr (), w1, self\<lparr>site_icon := None\<rparr>)
              else (Inr (), w1, store_icon env self (body ico_response)))))"

text \<open>
  \<^verbatim>\<open>page_soup.find(name='link', attrs={'rel': 'icon'})['href']\<close>: subscripting \<^verbatim>\<open>None\<close>
  raises \<^verbatim>\<open>TypeError\<close>, a tag without the attribute raises \<^verbatim>\<open>KeyError\<close>.
\<close>

definition find_icon_href :: "'img env \<Rightarrow> string \<Rightarrow> exn + string" where
  "find_icon_href env page =
     (case soup_find_link_icon env page of
        None \<Rightarrow> Inl (TypeError ''NoneType object is not subscriptable'')
      | Some attrs \<Rightarrow>
         (case map_of attrs ''href'' of
            None \<Rightarrow> Inl (KeyError ''href'')
          | Some href \<Rightarrow> Inr href))"

fun is_TypeError_or_KeyError :: "exn \<Rightarrow> bool" where
  "is_TypeError_or_KeyError (TypeError _) = True"
| "is_TypeError_or_KeyError (KeyError _) = True"
| "is_TypeError_or_KeyError _ = False"

text \<open>
  Lines 179 to 182: a URL with no network location is joined to \<^verbatim>\<open>self.url\<close>.
\<close>

definition resolve_icon_url :: "'img env \<Rightarrow> 'img AudioDownloader \<Rightarrow> string \<Rightarrow> exn + string" where
  "resolve_icon_url env self icon_url_in =
     (case urlsplit env icon_url_in [] of
        Inl e \<Rightarrow> Inl e
      | Inr parts \<Rightarrow>
          if netloc parts = [] then urljoin env (url self) (quote icon_url_in)
          else Inr icon_url_in)"

text \<open>
  \<^verbatim>\<open>DEBUG\<close> is \<^verbatim>\<open>None\<close>, so the handler of \<^verbatim>\<open>URLError\<close> shows nothing and returns.
\<close>

definition maybe_get_icon ::
  "'img env \<Rightarrow> world \<Rightarrow> 'img AudioDownloader \<Rightarrow> (exn + unit) \<times> world \<times> 'img AudioDownloader" where
  "maybe_get_icon env w self =
     (if site_icon self \<noteq> None then (Inr (), w, self)
      else if \<not> with_pyqt env then (Inr (), w, self\<lparr>site_icon := None\<rparr>)
      else case Request env (icon_url self) of
        Inl e \<Rightarrow> (Inl e, w, self)
      | Inr page_request \<Rightarrow>
       (case call_urlopen env w (maybe_add_user_agent self page_request) of
          (Inl e, w1) \<Rightarrow> (Inl e, w1, self)
        | (Inr page_response, w1) \<Rightarrow>
            if 200 \<noteq> code page_response then get_favicon env w1 self
            else
             (case find_icon_href env (body page_response) of
                Inl e \<Rightarrow>
                  if is_TypeError_or_KeyError e then get_favicon env w1 self
                  else (Inl e, w1, self)
              | Inr href \<Rightarrow>
               (case resolve_icon_url env self href of
                  Inl e \<Rightarrow> (Inl e, w1, self)
                | Inr icon_url1 \<Rightarrow>
                 (case Request env icon_url1 of
                    Inl e \<Rightarrow> if is_URLError e then (Inr (), w1, self) else (Inl e, w1, self)
                  | Inr icon_request \<Rightarrow>
                   (case call_urlopen env w1 (maybe_add_user_agent self icon_request) of
                      (Inl e, w2) \<Rightarrow>
                        if is_URLError e then (Inr (), w2, self) else (Inl e, w2, self)
                    | (Inr icon_response, w2) \<Rightarrow>
                        if 200 \<noteq> code icon_response
                        then (Inr (), w2, self\<lparr>site_icon := None\<rparr>)
                        else (Inr (), w2, store_icon env self (body icon_response))))))))"

subsection \<open>get\_data\_from\_url\<close>

definition get_data_from_url ::
  "'img env \<Rightarrow> world \<Rightarrow> 'img AudioDownloader \<Rightarrow> string \<Rightarrow>
     (exn + string) \<times> world \<times> 'img AudioDownloader" where
  "get_data_from_url env w self url_in =
     (case Request env url_in of
        Inl e \<Rightarrow> (Inl e, w, self)
      | Inr request \<Rightarrow>
       (case call_urlopen env w (add_header ''User-agent'' (user_agent self) request) of
          (Inl e, w1) \<Rightarrow> (Inl e, w1, self)
        | (Inr response, w1) \<Rightarrow>
            if 200 \<noteq> code response
            then (Inl (ValueError (str (code response) @ '': '' @ msg response)), w1, self)
            else (Inr (body response), w1, self)))"

subsection \<open>get\_file\_name\<close>

text \<open>\<^verbatim>\<open>os.path.join(a, b)\<close> of two components, on POSIX.\<close>

definition path_join :: "string \<Rightarrow> string \<Rightarrow> string" where
  "path_join a b =
     (if take 1 b = ''/'' then b
      else if a = [] \<or> last a = CHR ''/'' then a @ b
      else a @ ''/'' @ b)"

text \<open>
  \<^verbatim>\<open>tempfile._mkstemp_inner\<close> of the standard library, which
  \<^verbatim>\<open>NamedTemporaryFile\<close> calls with the prefix \<^verbatim>\<open>tmp\<close>: for at most \<^verbatim>\<open>TMP_MAX\<close>
  random names it opens the file of that name in the temporary directory, creating it
  exclusively. A name that exists is passed over; any other failure is raised; with no
  name left it raises \<^verbatim>\<open>FileExistsError\<close>. The first argument counts the names left to
  try.
\<close>

fun mkstemp_inner :: "'img env \<Rightarrow> nat \<Rightarrow> string \<Rightarrow> world \<Rightarrow> (exn + string) \<times> world" where
  "mkstemp_inner env 0 suf w =
     (Inl (FileExistsError ''No usable temporary file name found''), w)"
| "mkstemp_inner env (Suc n) suf w =
     (let name = candidate_names env (names_drawn w);
          file = path_join (tempdir env) (''tmp'' @ name @ suf);
          w1 = w\<lparr>names_drawn := Suc (names_drawn w)\<rparr>
      in if file \<in> set (files w) then mkstemp_inner env n suf w1
         else case os_open_error env file of
                Some e \<Rightarrow> (Inl e, w1)
              | None \<Rightarrow> (Inr file, w1\<lparr>files := file # files w1\<rparr>))"

text \<open>
  \<^verbatim>\<open>tempfile.NamedTemporaryFile(delete=False, suffix=suf)\<close> followed by \<^verbatim>\<open>close()\<close>:
  the file stays, its name is the result.
\<close>

definition NamedTemporaryFile :: "'img env \<Rightarrow> world \<Rightarrow> string \<Rightarrow> (exn + string) \<times> world" where
  "NamedTemporaryFile env w suf = mkstemp_inner env (TMP_MAX env) suf w"

definition get_file_name ::
  "'img env \<Rightarrow> world \<Rightarrow> 'img AudioDownloader \<Rightarrow>
     (exn + string \<times> string) \<times> world \<times> 'img AudioDownloader" where
  "get_file_name env w self =
     (if use_temp_files self then
        (case NamedTemporaryFile env w (file_extension self) of
           (Inl e, w1) \<Rightarrow> (Inl e, w1, self)
         | (Inr name, w1) \<Rightarrow> (Inr (name, name), w1, self))
      else
        (case free_media_name env (files w) (base_name self) (file_extension self) of
           Inl e \<Rightarrow> (Inl e, w, self)
         | Inr names \<Rightarrow> (Inr names, w, self)))"

subsection \<open>Repeated calls, and names for what the properties speak of\<close>

text \<open>\<open>n\<close> calls of \<^verbatim>\<open>maybe_get_icon\<close> in a row; an exception ends the run.\<close>

fun repeat_maybe_get_icon ::
  "nat \<Rightarrow> 'img env \<Rightarrow> world \<Rightarrow> 'img AudioDownloader \<Rightarrow>
     (exn + unit) \<times> world \<times> 'img AudioDownloader" where
  "repeat_maybe_get_icon 0 env w self = (Inr (), w, self)"
| "repeat_maybe_get_icon (Suc n) env w self =
     (case maybe_get_icon env w self of
        (Inl e, w1, self1) \<Rightarrow> (Inl e, w1, self1)
      | (Inr _, w1, self1) \<Rightarrow> repeat_maybe_get_icon n env w1 self1)"

text \<open>A request for a URL as the icon code sends it, and the world after more requests.\<close>

definition icon_request :: "'img AudioDownloader \<Rightarrow> string \<Rightarrow> request" where
  "icon_request self u = maybe_add_user_agent self \<lparr> full_url = u, headers = [] \<rparr>"

definition logged :: "world \<Rightarrow> request list \<Rightarrow> world" where
  "logged w reqs = w\<lparr>requests := requests w @ reqs\<rparr>"

text \<open>
  The icon page loads: the icon is not there yet, PyQt is, and \<^verbatim>\<open>urlopen\<close> returns
  the response \<open>page\<close> for the request for \<^verbatim>\<open>icon_url\<close>.
\<close>

definition page_answered ::
  "'img env \<Rightarrow> world \<Rightarrow> 'img AudioDownloader \<Rightarrow> response \<Rightarrow> bool" where
  "page_answered env w self page =
     (site_icon self = None \<and> with_pyqt env \<and> Request_error env (icon_url self) = None
      \<and> urlopen env (requests w) (icon_request self (icon_url self)) = Inr page)"

text \<open>A string that \<^verbatim>\<open>quote\<close> leaves as it is: every character is safe.\<close>

definition quote_neutral :: "string \<Rightarrow> bool" where
  "quote_neutral s = list_all (\<lambda>c. c \<in> set (ALWAYS_SAFE @ ''/'')) s"

text \<open>The path of the \<open>i\<close>-th candidate name of the temporary-file module.\<close>

definition tmp_path :: "'img env \<Rightarrow> string \<Rightarrow> nat \<Rightarrow> string" where
  "tmp_path env suf i = path_join (tempdir env) (''tmp'' @ candidate_names env i @ suf)"

subsection \<open>A site to run the code on\<close>

text \<open>
  A server, as \<open>http_open\<close> sees it. It has a page that links its icon by a relative
  URL; a page whose icon link is dead; a page whose icon link points to an address that
  refuses the connection; a page whose icon is answered with 204; a page whose icon link
  has a query, the icon being served at the address the link resolves to; a page with no
  link; and an address that answers 204. A second host has a page with no link and answers
  204 for its favicon. Every other address answers 404. The image type is the data itself,
  with the length of the data as width and height.
\<close>

definition example_server :: "request list \<Rightarrow> request \<Rightarrow> exn + response" where
  "example_server history req =
     (if full_url req = ''https://example.com/page''
      then Inr \<lparr> code = 200, msg = ''OK'', body = ''<link rel=icon href=/icons/a.png>'' \<rparr>
      else if full_url req = ''https://example.com/icons/a.png''
      then Inr \<lparr> code = 200, msg = ''OK'', body = ''PNG'' \<rparr>
      else if full_url req = ''https://example.com/broken''
      then Inr \<lparr> code = 200, msg = ''OK'', body = ''<link rel=icon href=/missing.png>'' \<rparr>
      else if full_url req = ''https://example.com/linked''
      then Inr \<lparr> code = 200, msg = ''OK'',
                 body = ''<link rel=icon href=https://example.com/down>'' \<rparr>
      else if full_url req = ''https://example.com/partial''
      then Inr \<lparr> code = 200, msg = ''OK'', body = ''<link rel=icon href=/nocontent.png>'' \<rparr>
      else if full_url req = ''https://example.com/nocontent.png''
      then Inr \<lparr> code = 204, msg = ''No Content'', body = [] \<rparr>
      else if full_url req = ''https://example.com/query''
      then Inr \<lparr> code = 200, msg = ''OK'', body = ''<link rel=icon href=icons/a.png?v=1>'' \<rparr>
      else if full_url req = ''https://example.com/icons/a.png?v=1''
      then Inr \<lparr> code = 200, msg = ''OK'', body = ''PNG'' \<rparr>
      else if full_url req = ''https://example.com/plain''
      then Inr \<lparr> code = 200, msg = ''OK'', body = ''<p>hello</p>'' \<rparr>
      else if full_url req = ''https://example.com/empty''
      then Inr \<lparr> code = 204, msg = ''No Content'', body = [] \<rparr>
      else if full_url req = ''https://example.com/favicon.ico''
      then Inr \<lparr> code = 200, msg = ''OK'', body = ''ICO'' \<rparr>
      else if full_url req = ''https://example.com/down''
      then Inl (URLError ''Connection refused'')
      else if full_url req = ''https://other.example/plain''
      then Inr \<lparr> code = 200, msg = ''OK'', body = ''<p>other</p>'' \<rparr>
      else if full_url req = ''https://other.example/favicon.ico''
      then Inr \<lparr> code = 204, msg = ''No Content'', body = [] \<rparr>
      else Inr \<lparr> code = 404, msg = ''Not Found'', body = [] \<rparr>)"

definition example_soup :: "string \<Rightarrow> (string \<times> string) list option" where
  "example_soup page =
     (if page = ''<link rel=icon href=/icons/a.png>''
      then Some [(''rel'', ''icon''), (''href'', ''/icons/a.png'')]
      else if page = ''<link rel=icon href=/missing.png>''
      then Some [(''rel'', ''icon''), (''href'', ''/missing.png'')]
      else if page = ''<link rel=icon href=https://example.com/down>''
      then Some [(''rel'', ''icon''), (''href'', ''https://example.com/down'')]
      else if page = ''<link rel=icon href=/nocontent.png>''
      then Some [(''rel'', ''icon''), (''href'', ''/nocontent.png'')]
      else if page = ''<link rel=icon href=icons/a.png?v=1>''
      then Some [(''rel'', ''icon''), (''href'', ''icons/a.png?v=1'')]
      else None)"

definition example_env :: "string env" where
  "example_env = \<lparr>
     with_pyqt = True,
     Request_error = (\<lambda>u. if u = [] then Some (ValueError ''unknown url type'') else None),
     http_open = example_server,
     soup_find_link_icon = example_soup,
     fromData = (\<lambda>data. data),
     img_size = (\<lambda>img. (int (length img), int (length img))),
     scaled = (\<lambda>img box. take (nat (fst box)) img),
     check_bracketed_host = (\<lambda>host. None),
     checknetloc_nfkc = (\<lambda>nl. None),
     TMP_MAX = 10000,
     tempdir = ''/tmp'',
     candidate_names = (\<lambda>i. str_nat i),
     os_open_error = (\<lambda>file. None),
     free_media_name = (\<lambda>present base ext. Inr (''collection.media'', base @ ext)) \<rparr>"

definition no_pyqt_env :: "string env" where
  "no_pyqt_env = example_env\<lparr>with_pyqt := False\<rparr>"

definition example_downloader :: "string \<Rightarrow> string AudioDownloader" where
  "example_downloader page = init\<lparr>url := ''https://example.com/page'', icon_url := page\<rparr>"

definition example_world :: world where
  "example_world = \<lparr> requests = [], files = [''/tmp/tmp0.wav''], names_drawn = 0 \<rparr>"

section \<open>Properties\<close>

subsection \<open>uniqify\_list\<close>

lemma set_uniqify_loop: "set (uniqify_loop acc xs) = set acc \<union> set xs"
  by (induction xs arbitrary: acc) (auto simp: count_list_0_iff)

lemma uniqify_loop_snoc:
  "uniqify_loop acc (xs @ [x]) =
     (if x \<in> set acc \<union> set xs then uniqify_loop acc xs else uniqify_loop acc xs @ [x])"
proof (induction xs arbitrary: acc)
  case Nil
  show ?case by (simp add: count_list_0_iff)
next
  case (Cons y ys)
  show ?case by (simp add: Cons.IH) auto
qed

lemma uniqify_list_Nil: "uniqify_list [] = []"
  by (simp add: uniqify_list_def)

lemma uniqify_list_snoc:
  "uniqify_list (xs @ [x]) = (if x \<in> set xs then uniqify_list xs else uniqify_list xs @ [x])"
  by (simp add: uniqify_list_def uniqify_loop_snoc)

lemma set_uniqify_list: "set (uniqify_list xs) = set xs"
  by (simp add: uniqify_list_def set_uniqify_loop)

lemma distinct_uniqify_list: "distinct (uniqify_list xs)"
  by (induction xs rule: rev_induct)
     (simp_all add: uniqify_list_Nil uniqify_list_snoc set_uniqify_list)

lemma uniqify_list_distinct_id: "distinct ys \<Longrightarrow> uniqify_list ys = ys"
  by (induction ys rule: rev_induct) (simp_all add: uniqify_list_Nil uniqify_list_snoc)

lemma uniqify_list_first_occurrences:
  "uniqify_list xs = map (\<lambda>i. xs ! i) (filter (first_occurrence xs) [0..<length xs])"
proof (induction xs rule: rev_induct)
  case Nil
  show ?case by (simp add: uniqify_list_Nil)
next
  case (snoc x xs)
  have keep: "filter (first_occurrence (xs @ [x])) [0..<length xs] =
      filter (first_occurrence xs) [0..<length xs]"
    by (intro filter_cong refl) (simp add: first_occurrence_def nth_append)
  have same: "map (\<lambda>i. (xs @ [x]) ! i) (filter (first_occurrence xs) [0..<length xs]) =
      map (\<lambda>i. xs ! i) (filter (first_occurrence xs) [0..<length xs])"
    by (intro map_cong refl) (simp add: nth_append)
  have new: "first_occurrence (xs @ [x]) (length xs) = (x \<notin> set xs)"
    by (simp add: first_occurrence_def)
  show ?case
    by (simp add: uniqify_list_snoc keep same new snoc.IH [symmetric])
qed

text \<open>
  C4. For every input sequence, \<open>uniqify_list\<close> returns the subsequence of the first
  occurrences of its elements: the element at position \<open>i\<close> is kept exactly when it is at
  no earlier position, and the kept elements stand in the input's order. The output has no
  repeated element and the elements of the input, and applying the function twice gives
  what applying it once gives.
\<close>

theorem uniqify_list_spec:
  "uniqify_list xs = map (\<lambda>i. xs ! i) (filter (first_occurrence xs) [0..<length xs])
   \<and> distinct (uniqify_list xs)
   \<and> set (uniqify_list xs) = set xs
   \<and> uniqify_list (uniqify_list xs) = uniqify_list xs"
proof (intro conjI)
  show "uniqify_list xs = map (\<lambda>i. xs ! i) (filter (first_occurrence xs) [0..<length xs])"
    by (rule uniqify_list_first_occurrences)
  show "distinct (uniqify_list xs)"
    by (rule distinct_uniqify_list)
  show "set (uniqify_list xs) = set xs"
    by (rule set_uniqify_list)
  show "uniqify_list (uniqify_list xs) = uniqify_list xs"
    by (rule uniqify_list_distinct_id) (rule distinct_uniqify_list)
qed

theorem uniqify_list_spec_witness:
  "uniqify_list ''banana'' = ''ban''
   \<and> distinct (uniqify_list ''banana'')
   \<and> uniqify_list (uniqify_list ''banana'') = uniqify_list ''banana''"
proof -
  have run: "uniqify_list ''banana'' = ''ban''"
    by code_simp
  from uniqify_list_spec [of "''banana''"] run show ?thesis
    by blast
qed

subsection \<open>download\_files\<close>

text \<open>
  C10. For every word, base, ruby and split, \<open>download_files\<close> of the base class raises
  \<^verbatim>\<open>NotImplementedError\<close>, and the downloader comes back as it was, in every field, as
  does the world.
\<close>

theorem download_files_not_implemented:
  "fst (download_files w self word base ruby split) =
     Inl (NotImplementedError ''Use a class derived from this.'')
   \<and> snd (download_files w self word base ruby split) = (w, self)"
  by (simp add: download_files_def)

subsection \<open>The paths through maybe\_get\_icon and get\_favicon\<close>

lemma capitalize_User_agent: "capitalize ''User-agent'' = ''User-agent''"
  by code_simp

lemma icon_request_eq:
  "icon_request self u =
     \<lparr> full_url = u,
       headers = (if user_agent self = [] then [] else [(''User-agent'', user_agent self)]) \<rparr>"
  by (simp add: icon_request_def maybe_add_user_agent_def add_header_def capitalize_User_agent)

lemma site_icon_None_update: "site_icon self = None \<Longrightarrow> self\<lparr>site_icon := None\<rparr> = self"
  by (cases self) simp

lemma find_icon_href_errors: "find_icon_href env page = Inl e \<Longrightarrow> is_TypeError_or_KeyError e"
  by (auto simp: find_icon_href_def split: option.splits)

lemma Request_ok:
  "Request_error env u = None \<Longrightarrow> Request env u = Inr \<lparr> full_url = u, headers = [] \<rparr>"
  by (simp add: Request_def)

lemma urlopen_raises: "http_open env history req = Inl e \<Longrightarrow> urlopen env history req = Inl e"
  by (simp add: urlopen_def)

lemma urlopen_success:
  "http_open env history req = Inr r \<Longrightarrow> 200 \<le> code r \<Longrightarrow> code r < 300 \<Longrightarrow>
     urlopen env history req = Inr r"
  by (simp add: urlopen_def)

lemma urlopen_http_error:
  "http_open env history req = Inr r \<Longrightarrow> \<not> (200 \<le> code r \<and> code r < 300) \<Longrightarrow>
     urlopen env history req = Inl (HTTPError (code r) (msg r))"
  by (simp add: urlopen_def)

lemma maybe_get_icon_cached:
  "site_icon self \<noteq> None \<Longrightarrow> maybe_get_icon env w self = (Inr (), w, self)"
  by (simp add: maybe_get_icon_def)

lemma repeat_maybe_get_icon_cached:
  "site_icon self \<noteq> None \<Longrightarrow> repeat_maybe_get_icon n env w self = (Inr (), w, self)"
  by (induction n) (simp_all add: maybe_get_icon_cached)

text \<open>The request for the icon page raises.\<close>

lemma maybe_get_icon_page_raises:
  assumes "site_icon self = None" and "with_pyqt env"
    and "Request_error env (icon_url self) = None"
    and "urlopen env (requests w) (icon_request self (icon_url self)) = Inl e"
  shows "maybe_get_icon env w self = (Inl e, logged w [icon_request self (icon_url self)], self)"
  using assms
  by (simp add: maybe_get_icon_def Request_ok call_urlopen_def icon_request_def logged_def)

text \<open>The page is answered, but not with 200 or with no icon link: the favicon is next.\<close>

lemma maybe_get_icon_fallback:
  assumes "page_answered env w self page"
    and "code page \<noteq> 200 \<or> isl (find_icon_href env (body page))"
  shows "maybe_get_icon env w self =
           get_favicon env (logged w [icon_request self (icon_url self)]) self"
proof -
  from assms(1) have pre: "site_icon self = None" "with_pyqt env"
      "Request_error env (icon_url self) = None"
      "urlopen env (requests w) (icon_request self (icon_url self)) = Inr page"
    by (simp_all add: page_answered_def)
  show ?thesis
  proof (cases "code page = 200")
    case False
    with pre show ?thesis
      by (simp add: maybe_get_icon_def Request_ok call_urlopen_def icon_request_def logged_def)
  next
    case True
    with assms(2) obtain e where e: "find_icon_href env (body page) = Inl e"
      by (cases "find_icon_href env (body page)") auto
    with pre True find_icon_href_errors [OF e] show ?thesis
      by (simp add: maybe_get_icon_def Request_ok call_urlopen_def icon_request_def logged_def)
  qed
qed

text \<open>The page names an icon and the request for it is built: what \<open>urlopen\<close> does decides.\<close>

lemma maybe_get_icon_linked:
  assumes "page_answered env w self page"
    and "code page = 200"
    and "find_icon_href env (body page) = Inr href"
    and "resolve_icon_url env self href = Inr target"
    and "Request_error env target = None"
  shows "maybe_get_icon env w self =
     (case urlopen env (requests w @ [icon_request self (icon_url self)])
             (icon_request self target) of
        Inl e \<Rightarrow>
          if is_URLError e
          then (Inr (), logged w [icon_request self (icon_url self), icon_request self target],
                self)
          else (Inl e, logged w [icon_request self (icon_url self), icon_request self target],
                self)
      | Inr icon_response \<Rightarrow>
          if code icon_response \<noteq> 200
          then (Inr (), logged w [icon_request self (icon_url self), icon_request self target],
                self\<lparr>site_icon := None\<rparr>)
          else (Inr (), logged w [icon_request self (icon_url self), icon_request self target],
                store_icon env self (body icon_response)))"
proof -
  from assms(1) have pre: "site_icon self = None" "with_pyqt env"
      "Request_error env (icon_url self) = None"
      "urlopen env (requests w) (icon_request self (icon_url self)) = Inr page"
    by (simp_all add: page_answered_def)
  with assms(2-5) show ?thesis
    by (simp add: maybe_get_icon_def Request_ok call_urlopen_def icon_request_def logged_def
          split: sum.splits)
qed

text \<open>The request for the favicon is built: what \<open>urlopen\<close> does decides.\<close>

lemma get_favicon_request:
  assumes "site_icon self = None" and "with_pyqt env"
    and "urljoin env (icon_url self) ''/favicon.ico'' = Inr ico_url"
    and "Request_error env ico_url = None"
  shows "get_favicon env w self =
     (case urlopen env (requests w) (icon_request self ico_url) of
        Inl e \<Rightarrow> (Inl e, logged w [icon_request self ico_url], self)
      | Inr ico_response \<Rightarrow>
          if code ico_response \<noteq> 200
          then (Inr (), logged w [icon_request self ico_url], self\<lparr>site_icon := None\<rparr>)
          else (Inr (), logged w [icon_request self ico_url],
                store_icon env self (body ico_response)))"
  using assms
  by (simp add: get_favicon_def Request_ok call_urlopen_def icon_request_def logged_def
        split: sum.splits)

lemma logged_logged: "logged (logged w xs) ys = logged w (xs @ ys)"
  by (simp add: logged_def)

lemma requests_logged: "requests (logged w xs) = requests w @ xs"
  by (simp add: logged_def)

subsection \<open>Runs on the example site\<close>

lemmas example_defs = example_env_def urlopen_def example_server_def example_soup_def
  example_downloader_def init_def icon_request_eq find_icon_href_def logged_def
  store_icon_def page_answered_def

lemma example_page_answered:
  "page_answered example_env w (example_downloader ''https://example.com/page'')
     \<lparr> code = 200, msg = ''OK'', body = ''<link rel=icon href=/icons/a.png>'' \<rparr>"
  by (simp add: example_defs)

lemma example_page_resolve:
  "resolve_icon_url example_env (example_downloader ''https://example.com/page'') ''/icons/a.png''
     = Inr ''https://example.com/icons/a.png''"
  by code_simp

text \<open>The page with the relative icon link: two requests, the icon stored.\<close>

lemma example_page_run:
  "maybe_get_icon example_env w (example_downloader ''https://example.com/page'') =
     (Inr (),
      logged w
        [icon_request (example_downloader ''https://example.com/page'') ''https://example.com/page'',
         icon_request (example_downloader ''https://example.com/page'')
           ''https://example.com/icons/a.png''],
      (example_downloader ''https://example.com/page'')\<lparr>site_icon := Some ''PNG''\<rparr>)"
proof -
  have href: "find_icon_href example_env
      (body \<lparr> code = 200, msg = ''OK'', body = ''<link rel=icon href=/icons/a.png>'' \<rparr>)
        = Inr ''/icons/a.png''"
    by (simp add: example_defs)
  have ok: "code \<lparr> code = 200, msg = ''OK'', body = ''<link rel=icon href=/icons/a.png>'' \<rparr> = 200"
    by simp
  have req: "Request_error example_env ''https://example.com/icons/a.png'' = None"
    by (simp add: example_env_def)
  show ?thesis
    unfolding maybe_get_icon_linked [OF example_page_answered ok href example_page_resolve req]
    by (simp add: example_defs)
qed

lemma example_broken_answered:
  "page_answered example_env w (example_downloader ''https://example.com/broken'')
     \<lparr> code = 200, msg = ''OK'', body = ''<link rel=icon href=/missing.png>'' \<rparr>"
  by (simp add: example_defs)

lemma example_broken_resolve:
  "resolve_icon_url example_env (example_downloader ''https://example.com/broken'') ''/missing.png''
     = Inr ''https://example.com/missing.png''"
  by code_simp

text \<open>
  The page with the dead icon link: two requests; the 404 for the icon is raised by
  \<^verbatim>\<open>urlopen\<close> as \<^verbatim>\<open>HTTPError\<close> and caught, and the icon is \<^verbatim>\<open>None\<close> as before.
\<close>

lemma example_broken_run:
  "maybe_get_icon example_env w (example_downloader ''https://example.com/broken'') =
     (Inr (),
      logged w
        [icon_request (example_downloader ''https://example.com/broken'')
           ''https://example.com/broken'',
         icon_request (example_downloader ''https://example.com/broken'')
           ''https://example.com/missing.png''],
      (example_downloader ''https://example.com/broken'')\<lparr>site_icon := None\<rparr>)"
proof -
  have href: "find_icon_href example_env
      (body \<lparr> code = 200, msg = ''OK'', body = ''<link rel=icon href=/missing.png>'' \<rparr>)
        = Inr ''/missing.png''"
    by (simp add: example_defs)
  have ok: "code \<lparr> code = 200, msg = ''OK'', body = ''<link rel=icon href=/missing.png>'' \<rparr> = 200"
    by simp
  have req: "Request_error example_env ''https://example.com/missing.png'' = None"
    by (simp add: example_env_def)
  show ?thesis
    unfolding maybe_get_icon_linked [OF example_broken_answered ok href example_broken_resolve req]
    by (simp add: example_defs)
qed

lemma example_broken_unset:
  "(example_downloader ''https://example.com/broken'')\<lparr>site_icon := None\<rparr>
     = example_downloader ''https://example.com/broken''"
  by (simp add: example_downloader_def init_def)

lemma example_linked_answered:
  "page_answered example_env w (example_downloader ''https://example.com/linked'')
     \<lparr> code = 200, msg = ''OK'', body = ''<link rel=icon href=https://example.com/down>'' \<rparr>"
  by (simp add: example_defs)

lemma example_linked_resolve:
  "resolve_icon_url example_env (example_downloader ''https://example.com/linked'')
     ''https://example.com/down'' = Inr ''https://example.com/down''"
  by code_simp

lemma example_partial_answered:
  "page_answered example_env w (example_downloader ''https://example.com/partial'')
     \<lparr> code = 200, msg = ''OK'', body = ''<link rel=icon href=/nocontent.png>'' \<rparr>"
  by (simp add: example_defs)

lemma example_partial_resolve:
  "resolve_icon_url example_env (example_downloader ''https://example.com/partial'')
     ''/nocontent.png'' = Inr ''https://example.com/nocontent.png''"
  by code_simp

lemma example_query_answered:
  "page_answered example_env w (example_downloader ''https://example.com/query'')
     \<lparr> code = 200, msg = ''OK'', body = ''<link rel=icon href=icons/a.png?v=1>'' \<rparr>"
  by (simp add: example_defs)

lemma example_query_resolve:
  "resolve_icon_url example_env (example_downloader ''https://example.com/query'')
     ''icons/a.png?v=1'' = Inr ''https://example.com/icons/a.png%3Fv%3D1''"
  by code_simp

lemma example_query_join:
  "urljoin example_env (url (example_downloader ''https://example.com/query''))
     ''icons/a.png?v=1'' = Inr ''https://example.com/icons/a.png?v=1''"
  by code_simp

text \<open>
  The page whose icon link has a query: the request goes to the quoted address, which the
  server does not know, and no icon is stored.
\<close>

lemma example_query_run:
  "maybe_get_icon example_env w (example_downloader ''https://example.com/query'') =
     (Inr (),
      logged w
        [icon_request (example_downloader ''https://example.com/query'')
           ''https://example.com/query'',
         icon_request (example_downloader ''https://example.com/query'')
           ''https://example.com/icons/a.png%3Fv%3D1''],
      example_downloader ''https://example.com/query'')"
proof -
  have href: "find_icon_href example_env
      (body \<lparr> code = 200, msg = ''OK'', body = ''<link rel=icon href=icons/a.png?v=1>'' \<rparr>)
        = Inr ''icons/a.png?v=1''"
    by (simp add: example_defs)
  have ok: "code \<lparr> code = 200, msg = ''OK'', body = ''<link rel=icon href=icons/a.png?v=1>'' \<rparr>
      = 200"
    by simp
  have req: "Request_error example_env ''https://example.com/icons/a.png%3Fv%3D1'' = None"
    by (simp add: example_env_def)
  show ?thesis
    unfolding maybe_get_icon_linked [OF example_query_answered ok href example_query_resolve req]
    by (simp add: example_defs)
qed

lemma example_plain_answered:
  "page_answered example_env w (example_downloader ''https://example.com/plain'')
     \<lparr> code = 200, msg = ''OK'', body = ''<p>hello</p>'' \<rparr>"
  by (simp add: example_defs)

lemma example_plain_favicon:
  "urljoin example_env (icon_url (example_downloader ''https://example.com/plain''))
     ''/favicon.ico'' = Inr ''https://example.com/favicon.ico''"
  by code_simp

text \<open>The favicon of the example site, fetched for the page with no link.\<close>

lemma example_plain_get_favicon:
  "get_favicon example_env w (example_downloader ''https://example.com/plain'') =
     (Inr (),
      logged w [icon_request (example_downloader ''https://example.com/plain'')
                  ''https://example.com/favicon.ico''],
      (example_downloader ''https://example.com/plain'')\<lparr>site_icon := Some ''ICO''\<rparr>)"
proof -
  have unset: "site_icon (example_downloader ''https://example.com/plain'') = None"
    by (simp add: example_defs)
  have qt: "with_pyqt example_env"
    by (simp add: example_env_def)
  have req: "Request_error example_env ''https://example.com/favicon.ico'' = None"
    by (simp add: example_env_def)
  show ?thesis
    unfolding get_favicon_request [OF unset qt example_plain_favicon req]
    by (simp add: example_defs)
qed

lemma example_other_answered:
  "page_answered example_env w (example_downloader ''https://other.example/plain'')
     \<lparr> code = 200, msg = ''OK'', body = ''<p>other</p>'' \<rparr>"
  by (simp add: example_defs)

lemma example_other_favicon:
  "urljoin example_env (icon_url (example_downloader ''https://other.example/plain''))
     ''/favicon.ico'' = Inr ''https://other.example/favicon.ico''"
  by code_simp

text \<open>A page that cannot be loaded: the connection is refused, or the server answers 404.\<close>

lemma example_down_raises:
  "maybe_get_icon example_env w (example_downloader ''https://example.com/down'') =
     (Inl (URLError ''Connection refused''),
      logged w [icon_request (example_downloader ''https://example.com/down'')
                  ''https://example.com/down''],
      example_downloader ''https://example.com/down'')"
proof -
  have unset: "site_icon (example_downloader ''https://example.com/down'') = None"
    by (simp add: example_defs)
  have qt: "with_pyqt example_env"
    by (simp add: example_env_def)
  have req: "Request_error example_env (icon_url (example_downloader ''https://example.com/down''))
      = None"
    by (simp add: example_defs)
  have down: "urlopen example_env (requests w)
      (icon_request (example_downloader ''https://example.com/down'')
        (icon_url (example_downloader ''https://example.com/down'')))
      = Inl (URLError ''Connection refused'')"
    by (simp add: example_defs)
  show ?thesis
    using maybe_get_icon_page_raises [OF unset qt req down]
    by (simp add: example_downloader_def)
qed

lemma example_nothing_raises:
  "maybe_get_icon example_env w (example_downloader ''https://example.com/nothing'') =
     (Inl (HTTPError 404 ''Not Found''),
      logged w [icon_request (example_downloader ''https://example.com/nothing'')
                  ''https://example.com/nothing''],
      example_downloader ''https://example.com/nothing'')"
proof -
  have unset: "site_icon (example_downloader ''https://example.com/nothing'') = None"
    by (simp add: example_defs)
  have qt: "with_pyqt example_env"
    by (simp add: example_env_def)
  have req: "Request_error example_env
      (icon_url (example_downloader ''https://example.com/nothing'')) = None"
    by (simp add: example_defs)
  have gone: "urlopen example_env (requests w)
      (icon_request (example_downloader ''https://example.com/nothing'')
        (icon_url (example_downloader ''https://example.com/nothing'')))
      = Inl (HTTPError 404 ''Not Found'')"
    by (simp add: example_defs)
  show ?thesis
    using maybe_get_icon_page_raises [OF unset qt req gone]
    by (simp add: example_downloader_def)
qed

subsection \<open>Without PyQt\<close>

text \<open>
  C8. When PyQt is not available, \<open>maybe_get_icon\<close> and \<open>get_favicon\<close> do nothing: they
  return without raising, the world is as before, so no request was made, and the
  downloader comes back as it was in every field; an icon that was unset stays unset.
\<close>

theorem no_pyqt_noop:
  assumes "\<not> with_pyqt env"
  shows "maybe_get_icon env w self = (Inr (), w, self)
       \<and> get_favicon env w self = (Inr (), w, self)
       \<and> (site_icon self = None \<longrightarrow>
            site_icon (snd (snd (maybe_get_icon env w self))) = None
          \<and> site_icon (snd (snd (get_favicon env w self))) = None)"
  using assms by (simp add: maybe_get_icon_def get_favicon_def site_icon_None_update)

theorem no_pyqt_noop_witness:
  "\<not> with_pyqt no_pyqt_env
   \<and> site_icon (example_downloader ''https://example.com/page'') = None
   \<and> maybe_get_icon no_pyqt_env example_world (example_downloader ''https://example.com/page'')
       = (Inr (), example_world, example_downloader ''https://example.com/page'')
   \<and> get_favicon no_pyqt_env example_world (example_downloader ''https://example.com/page'')
       = (Inr (), example_world, example_downloader ''https://example.com/page'')"
proof -
  have off: "\<not> with_pyqt no_pyqt_env"
    by (simp add: no_pyqt_env_def)
  have unset: "site_icon (example_downloader ''https://example.com/page'') = None"
    by (simp add: example_downloader_def init_def)
  from no_pyqt_noop [OF off, of example_world "example_downloader ''https://example.com/page''"]
    off unset
  show ?thesis
    by blast
qed

subsection \<open>The icon is kept\<close>

text \<open>
  C1, as amended. Once the site icon field holds an image, a call of \<open>maybe_get_icon\<close>
  makes no request (the world is as before) and leaves the stored icon, and the rest of
  the downloader, as it was. (The value \<^verbatim>\<open>None\<close> that a failed attempt leaves is the
  value of a downloader that never tried; the statement says nothing of it.)
\<close>

theorem maybe_get_icon_keeps_image:
  assumes "site_icon self = Some icon"
  shows "maybe_get_icon env w self = (Inr (), w, self)
       \<and> requests (fst (snd (maybe_get_icon env w self))) = requests w
       \<and> site_icon (snd (snd (maybe_get_icon env w self))) = Some icon"
  using assms by (simp add: maybe_get_icon_cached)

theorem maybe_get_icon_keeps_image_witness:
  "site_icon ((example_downloader ''https://example.com/page'')\<lparr>site_icon := Some ''PNG''\<rparr>)
     = Some ''PNG''
   \<and> maybe_get_icon example_env example_world
       ((example_downloader ''https://example.com/page'')\<lparr>site_icon := Some ''PNG''\<rparr>)
     = (Inr (), example_world,
        (example_downloader ''https://example.com/page'')\<lparr>site_icon := Some ''PNG''\<rparr>)"
proof -
  have stored:
    "site_icon ((example_downloader ''https://example.com/page'')\<lparr>site_icon := Some ''PNG''\<rparr>)
       = Some ''PNG''"
    by simp
  from maybe_get_icon_keeps_image [OF stored, of example_env example_world] stored
  show ?thesis
    by blast
qed

text \<open>
  C1 as stated fails. On the page whose icon link is dead, the first call gets 404 for the
  icon, the terminal failure, and ends with the field \<^verbatim>\<open>None\<close>; a second call, on
  the world and the downloader the first one left, makes the same two requests again.
\<close>

theorem maybe_get_icon_refetches_after_failure:
  "maybe_get_icon example_env example_world (example_downloader ''https://example.com/broken'') =
     (Inr (),
      logged example_world
        [icon_request (example_downloader ''https://example.com/broken'')
           ''https://example.com/broken'',
         icon_request (example_downloader ''https://example.com/broken'')
           ''https://example.com/missing.png''],
      (example_downloader ''https://example.com/broken'')\<lparr>site_icon := None\<rparr>)
   \<and> requests (fst (snd (maybe_get_icon example_env
        (logged example_world
          [icon_request (example_downloader ''https://example.com/broken'')
             ''https://example.com/broken'',
           icon_request (example_downloader ''https://example.com/broken'')
             ''https://example.com/missing.png''])
        ((example_downloader ''https://example.com/broken'')\<lparr>site_icon := None\<rparr>)))) =
       [icon_request (example_downloader ''https://example.com/broken'')
          ''https://example.com/broken'',
        icon_request (example_downloader ''https://example.com/broken'')
          ''https://example.com/missing.png'',
        icon_request (example_downloader ''https://example.com/broken'')
          ''https://example.com/broken'',
        icon_request (example_downloader ''https://example.com/broken'')
          ''https://example.com/missing.png'']"
  by (simp add: example_broken_unset example_broken_run logged_logged requests_logged
        example_world_def)

text \<open>
  C7. After a call of \<open>maybe_get_icon\<close> that leaves an image in the site icon field, any
  number of further calls return without raising, make no request (the world stays as the
  first call left it) and leave the stored icon and the rest of the downloader unchanged.
\<close>

theorem icon_fetched_once:
  assumes "maybe_get_icon env w self = (r, w1, self1)"
    and "site_icon self1 = Some icon"
  shows "repeat_maybe_get_icon n env w1 self1 = (Inr (), w1, self1)"
  using assms by (simp add: repeat_maybe_get_icon_cached)

theorem icon_fetched_once_witness:
  "maybe_get_icon example_env example_world (example_downloader ''https://example.com/page'') =
     (Inr (),
      logged example_world
        [icon_request (example_downloader ''https://example.com/page'') ''https://example.com/page'',
         icon_request (example_downloader ''https://example.com/page'')
           ''https://example.com/icons/a.png''],
      (example_downloader ''https://example.com/page'')\<lparr>site_icon := Some ''PNG''\<rparr>)
   \<and> repeat_maybe_get_icon 3 example_env
       (logged example_world
         [icon_request (example_downloader ''https://example.com/page'')
            ''https://example.com/page'',
          icon_request (example_downloader ''https://example.com/page'')
            ''https://example.com/icons/a.png''])
       ((example_downloader ''https://example.com/page'')\<lparr>site_icon := Some ''PNG''\<rparr>)
     = (Inr (),
        logged example_world
         [icon_request (example_downloader ''https://example.com/page'')
            ''https://example.com/page'',
          icon_request (example_downloader ''https://example.com/page'')
            ''https://example.com/icons/a.png''],
        (example_downloader ''https://example.com/page'')\<lparr>site_icon := Some ''PNG''\<rparr>)"
proof -
  have stored:
    "site_icon ((example_downloader ''https://example.com/page'')\<lparr>site_icon := Some ''PNG''\<rparr>)
       = Some ''PNG''"
    by simp
  from icon_fetched_once [OF example_page_run [of example_world] stored, where n = 3]
    example_page_run [of example_world]
  show ?thesis
    by blast
qed

subsection \<open>Relative icon links\<close>

lemma quote_neutral_id: "quote_neutral s \<Longrightarrow> quote s = s"
  by (induction s) (simp_all add: quote_neutral_def quote_def quoter_def)

lemma example_urljoin:
  "urljoin env ''https://example.com/page'' (quote ''/icons/a.png'') =
     Inr ''https://example.com/icons/a.png''"
  by code_simp

lemma example_urljoin_dots:
  "urljoin env ''https://example.com/a/b/page'' (quote ''../icons/./a.png'') =
     Inr ''https://example.com/a/icons/a.png''"
  by code_simp

lemma example_urljoin_quoted:
  "urljoin env ''https://example.com/a/page'' (quote ''icons/a b.png?v=1'') =
     Inr ''https://example.com/a/icons/a%20b.png%3Fv%3D1''"
  by code_simp

text \<open>
  C5, as amended. When the page is answered with 200 and its icon link has no network
  location, \<open>maybe_get_icon\<close> first quotes the link with \<^verbatim>\<open>urllib.parse.quote\<close>, which
  turns every character other than a letter, a digit, \<^verbatim>\<open>_.-~\<close> and \<^verbatim>\<open>/\<close> into its
  \<^verbatim>\<open>%XX\<close> form, joins the quoted link to the downloader's \<open>url\<close> and sends the request
  for the icon to the result, right after the request for the page. A link of safe
  characters only is joined as it is. In particular \<^verbatim>\<open>/icons/a.png\<close> joined to
  \<^verbatim>\<open>https://example.com/page\<close> gives \<^verbatim>\<open>https://example.com/icons/a.png\<close>; dot
  segments are resolved, and a space and a query are quoted.
\<close>

theorem relative_icon_url_quoted_and_joined:
  assumes "page_answered env w self page"
    and "code page = 200"
    and "find_icon_href env (body page) = Inr href"
    and "urlsplit env href [] = Inr parts"
    and "netloc parts = []"
    and "urljoin env (url self) (quote href) = Inr target"
    and "Request_error env target = None"
  shows "requests (fst (snd (maybe_get_icon env w self))) =
           requests w @ [icon_request self (icon_url self), icon_request self target]
       \<and> (quote_neutral href \<longrightarrow> urljoin env (url self) href = Inr target)
       \<and> urljoin env ''https://example.com/page'' (quote ''/icons/a.png'') =
           Inr ''https://example.com/icons/a.png''
       \<and> urljoin env ''https://example.com/a/b/page'' (quote ''../icons/./a.png'') =
           Inr ''https://example.com/a/icons/a.png''
       \<and> urljoin env ''https://example.com/a/page'' (quote ''icons/a b.png?v=1'') =
           Inr ''https://example.com/a/icons/a%20b.png%3Fv%3D1''"
proof -
  have resolve: "resolve_icon_url env self href = Inr target"
    using assms(4-6) by (simp add: resolve_icon_url_def)
  have sent: "requests (fst (snd (maybe_get_icon env w self))) =
           requests w @ [icon_request self (icon_url self), icon_request self target]"
    unfolding maybe_get_icon_linked [OF assms(1-3) resolve assms(7)]
    by (simp add: requests_logged split: sum.splits)
  have as_it_is: "quote_neutral href \<longrightarrow> urljoin env (url self) href = Inr target"
  proof
    assume "quote_neutral href"
    then have "quote href = href"
      by (rule quote_neutral_id)
    with assms(6) show "urljoin env (url self) href = Inr target"
      by simp
  qed
  from sent as_it_is example_urljoin example_urljoin_dots example_urljoin_quoted
  show ?thesis
    by blast
qed

theorem relative_icon_url_quoted_and_joined_witness:
  "page_answered example_env example_world (example_downloader ''https://example.com/page'')
     \<lparr> code = 200, msg = ''OK'', body = ''<link rel=icon href=/icons/a.png>'' \<rparr>
   \<and> urlsplit example_env ''/icons/a.png'' [] = Inr ([], [], ''/icons/a.png'', [], [])
   \<and> quote_neutral ''/icons/a.png''
   \<and> urljoin example_env (url (example_downloader ''https://example.com/page''))
        ''/icons/a.png'' = Inr ''https://example.com/icons/a.png''
   \<and> requests (fst (snd (maybe_get_icon example_env example_world
         (example_downloader ''https://example.com/page'')))) =
       requests example_world @
         [icon_request (example_downloader ''https://example.com/page'')
            (icon_url (example_downloader ''https://example.com/page'')),
          icon_request (example_downloader ''https://example.com/page'')
            ''https://example.com/icons/a.png'']"
proof -
  have ok: "code \<lparr> code = 200, msg = ''OK'', body = ''<link rel=icon href=/icons/a.png>'' \<rparr> = 200"
    by simp
  have href: "find_icon_href example_env
      (body \<lparr> code = 200, msg = ''OK'', body = ''<link rel=icon href=/icons/a.png>'' \<rparr>)
        = Inr ''/icons/a.png''"
    by (simp add: example_defs)
  have split: "urlsplit example_env ''/icons/a.png'' [] = Inr ([], [], ''/icons/a.png'', [], [])"
    by code_simp
  have relative: "netloc ([], [], ''/icons/a.png'', [], []) = []"
    by (simp add: netloc_def)
  have join: "urljoin example_env (url (example_downloader ''https://example.com/page''))
      (quote ''/icons/a.png'') = Inr ''https://example.com/icons/a.png''"
    by (simp add: example_downloader_def example_urljoin)
  have req: "Request_error example_env ''https://example.com/icons/a.png'' = None"
    by (simp add: example_env_def)
  have safe: "quote_neutral ''/icons/a.png''"
    by code_simp
  from relative_icon_url_quoted_and_joined
         [OF example_page_answered [of example_world] ok href split relative join req]
       example_page_answered [of example_world] split safe
  show ?thesis
    by blast
qed

text \<open>
  C5 as stated fails. On the page whose icon link is \<^verbatim>\<open>icons/a.png?v=1\<close>, a relative
  URL, resolving the link against the base URL gives
  \<^verbatim>\<open>https://example.com/icons/a.png?v=1\<close>, where the server has the icon; the request
  goes to \<^verbatim>\<open>https://example.com/icons/a.png%3Fv%3D1\<close> instead, and no icon is stored.
\<close>

theorem relative_icon_url_not_joined_as_it_is:
  "urlsplit example_env ''icons/a.png?v=1'' [] = Inr ([], [], ''icons/a.png'', ''v=1'', [])
   \<and> urljoin example_env (url (example_downloader ''https://example.com/query''))
        ''icons/a.png?v=1'' = Inr ''https://example.com/icons/a.png?v=1''
   \<and> maybe_get_icon example_env example_world (example_downloader ''https://example.com/query'') =
       (Inr (),
        logged example_world
          [icon_request (example_downloader ''https://example.com/query'')
             ''https://example.com/query'',
           icon_request (example_downloader ''https://example.com/query'')
             ''https://example.com/icons/a.png%3Fv%3D1''],
        example_downloader ''https://example.com/query'')"
proof -
  have split: "urlsplit example_env ''icons/a.png?v=1'' [] =
      Inr ([], [], ''icons/a.png'', ''v=1'', [])"
    by code_simp
  from split example_query_join example_query_run [of example_world] show ?thesis
    by blast
qed

subsection \<open>The favicon as fallback\<close>

lemma example_plain_run:
  "maybe_get_icon example_env w (example_downloader ''https://example.com/plain'') =
     (Inr (),
      logged w [icon_request (example_downloader ''https://example.com/plain'')
                  ''https://example.com/plain'',
                icon_request (example_downloader ''https://example.com/plain'')
                  ''https://example.com/favicon.ico''],
      (example_downloader ''https://example.com/plain'')\<lparr>site_icon := Some ''ICO''\<rparr>)"
proof -
  have no_link: "code \<lparr> code = 200, msg = ''OK'', body = ''<p>hello</p>'' \<rparr> \<noteq> 200
      \<or> isl (find_icon_href example_env
            (body \<lparr> code = 200, msg = ''OK'', body = ''<p>hello</p>'' \<rparr>))"
    by (simp add: example_defs)
  have page: "icon_url (example_downloader ''https://example.com/plain'')
      = ''https://example.com/plain''"
    by (simp add: example_downloader_def)
  show ?thesis
    unfolding maybe_get_icon_fallback [OF example_plain_answered no_link]
      example_plain_get_favicon
    by (simp add: page logged_logged)
qed

text \<open>
  The fallback that the code has: when \<^verbatim>\<open>urlopen\<close> returns the icon page, with a status
  from 201 to 299 or with no icon link in it, \<open>get_favicon\<close> is called and the next
  request goes to \<^verbatim>\<open>/favicon.ico\<close> joined to \<open>icon_url\<close>.
\<close>

lemma favicon_fallback:
  assumes "page_answered env w self page"
    and "code page \<noteq> 200 \<or> isl (find_icon_href env (body page))"
    and "urljoin env (icon_url self) ''/favicon.ico'' = Inr ico_url"
    and "Request_error env ico_url = None"
  shows "maybe_get_icon env w self =
           get_favicon env (logged w [icon_request self (icon_url self)]) self
       \<and> requests (fst (snd (maybe_get_icon env w self))) =
           requests w @ [icon_request self (icon_url self), icon_request self ico_url]"
proof -
  from assms(1) have pre: "site_icon self = None" "with_pyqt env"
    by (simp_all add: page_answered_def)
  have hand_over: "maybe_get_icon env w self =
      get_favicon env (logged w [icon_request self (icon_url self)]) self"
    by (rule maybe_get_icon_fallback [OF assms(1,2)])
  have "requests (fst (snd (get_favicon env (logged w [icon_request self (icon_url self)]) self)))
      = requests w @ [icon_request self (icon_url self), icon_request self ico_url]"
    unfolding get_favicon_request [OF pre assms(3,4)]
    by (simp add: requests_logged split: sum.splits)
  with hand_over show ?thesis
    by simp
qed

text \<open>
  C6, which the code does not keep. The claim: whenever the icon is unfetched and the load
  of the icon page fails, \<open>maybe_get_icon\<close> falls back to \<^verbatim>\<open>/favicon.ico\<close>. The code, on
  a page whose load fails: with the connection refused, and with the server answering 404,
  which \<^verbatim>\<open>urlopen\<close> raises as \<^verbatim>\<open>HTTPError\<close>, \<open>maybe_get_icon\<close> raises the exception
  of line 168; the request for the page is the only one made, none goes to
  \<^verbatim>\<open>/favicon.ico\<close>, and the icon stays \<^verbatim>\<open>None\<close>.
\<close>

theorem page_load_error_no_fallback:
  "maybe_get_icon example_env example_world (example_downloader ''https://example.com/down'') =
     (Inl (URLError ''Connection refused''),
      logged example_world
        [icon_request (example_downloader ''https://example.com/down'')
           ''https://example.com/down''],
      example_downloader ''https://example.com/down'')
   \<and> maybe_get_icon example_env example_world (example_downloader ''https://example.com/nothing'') =
     (Inl (HTTPError 404 ''Not Found''),
      logged example_world
        [icon_request (example_downloader ''https://example.com/nothing'')
           ''https://example.com/nothing''],
      example_downloader ''https://example.com/nothing'')"
  using example_down_raises [of example_world] example_nothing_raises [of example_world]
  by blast

subsection \<open>Errors during icon retrieval\<close>

text \<open>
  C3, as amended. During icon retrieval, once the icon page is answered with status 200:
  a missing icon link or \<^verbatim>\<open>href\<close> (the \<^verbatim>\<open>TypeError\<close> or \<^verbatim>\<open>KeyError\<close> of the lookup)
  is swallowed and \<open>get_favicon\<close> takes over, so that its outcome is the outcome of the
  call; a \<^verbatim>\<open>URLError\<close> raised for the request of the linked icon, and any status of
  that icon other than 200 (raised as \<^verbatim>\<open>HTTPError\<close> and caught when it is not from 200
  to 299, tested at line 188 when it is), end the call without an exception and with the
  stored icon \<^verbatim>\<open>None\<close>; and a status of the favicon from 201 to 299 ends \<open>get_favicon\<close>
  in the same way.
\<close>

theorem icon_errors_swallowed:
  assumes "page_answered env w self page"
    and "code page = 200"
  shows "(isl (find_icon_href env (body page)) \<longrightarrow>
            maybe_get_icon env w self =
              get_favicon env (logged w [icon_request self (icon_url self)]) self)
       \<and> (\<forall>href target outcome.
            find_icon_href env (body page) = Inr href
          \<and> resolve_icon_url env self href = Inr target
          \<and> Request_error env target = None
          \<and> http_open env (requests w @ [icon_request self (icon_url self)])
                (icon_request self target) = outcome
          \<and> ((\<exists>e. outcome = Inl e \<and> is_URLError e) \<or> (\<exists>r. outcome = Inr r \<and> code r \<noteq> 200))
          \<longrightarrow> maybe_get_icon env w self =
                (Inr (), logged w [icon_request self (icon_url self), icon_request self target],
                 self)
              \<and> site_icon (snd (snd (maybe_get_icon env w self))) = None)
       \<and> (\<forall>w' ico_url r.
            urljoin env (icon_url self) ''/favicon.ico'' = Inr ico_url
          \<and> Request_error env ico_url = None
          \<and> http_open env (requests w') (icon_request self ico_url) = Inr r
          \<and> 200 < code r \<and> code r < 300
          \<longrightarrow> get_favicon env w' self = (Inr (), logged w' [icon_request self ico_url], self)
              \<and> site_icon (snd (snd (get_favicon env w' self))) = None)"
proof (intro conjI allI impI)
  assume "isl (find_icon_href env (body page))"
  then show "maybe_get_icon env w self =
      get_favicon env (logged w [icon_request self (icon_url self)]) self"
    by (simp add: maybe_get_icon_fallback [OF assms(1)])
next
  from assms(1) have unset: "site_icon self = None"
    by (simp add: page_answered_def)
  fix href target outcome
  assume linked: "find_icon_href env (body page) = Inr href
          \<and> resolve_icon_url env self href = Inr target
          \<and> Request_error env target = None
          \<and> http_open env (requests w @ [icon_request self (icon_url self)])
                (icon_request self target) = outcome
          \<and> ((\<exists>e. outcome = Inl e \<and> is_URLError e) \<or> (\<exists>r. outcome = Inr r \<and> code r \<noteq> 200))"
  then have run: "maybe_get_icon env w self =
     (case urlopen env (requests w @ [icon_request self (icon_url self)])
             (icon_request self target) of
        Inl e \<Rightarrow>
          if is_URLError e
          then (Inr (), logged w [icon_request self (icon_url self), icon_request self target],
                self)
          else (Inl e, logged w [icon_request self (icon_url self), icon_request self target],
                self)
      | Inr icon_response \<Rightarrow>
          if code icon_response \<noteq> 200
          then (Inr (), logged w [icon_request self (icon_url self), icon_request self target],
                self\<lparr>site_icon := None\<rparr>)
          else (Inr (), logged w [icon_request self (icon_url self), icon_request self target],
                store_icon env self (body icon_response)))"
    using maybe_get_icon_linked [OF assms(1,2), of href target] by simp
  from linked have sent: "http_open env (requests w @ [icon_request self (icon_url self)])
      (icon_request self target) = outcome"
    by simp
  from linked
  have "(\<exists>e. outcome = Inl e \<and> is_URLError e) \<or> (\<exists>r. outcome = Inr r \<and> code r \<noteq> 200)"
    by simp
  then show swallowed: "maybe_get_icon env w self =
      (Inr (), logged w [icon_request self (icon_url self), icon_request self target], self)"
  proof (elim disjE exE conjE)
    fix e
    assume "outcome = Inl e" and "is_URLError e"
    with sent run show ?thesis
      by (simp add: urlopen_def)
  next
    fix r
    assume "outcome = Inr r" and "code r \<noteq> 200"
    with sent run unset show ?thesis
      by (simp add: urlopen_def site_icon_None_update)
  qed
  show "site_icon (snd (snd (maybe_get_icon env w self))) = None"
    by (simp add: swallowed unset)
next
  from assms(1) have pre: "site_icon self = None" "with_pyqt env"
    by (simp_all add: page_answered_def)
  fix w' :: world and ico_url r
  assume ico: "urljoin env (icon_url self) ''/favicon.ico'' = Inr ico_url
          \<and> Request_error env ico_url = None
          \<and> http_open env (requests w') (icon_request self ico_url) = Inr r
          \<and> 200 < code r \<and> code r < 300"
  then have "urlopen env (requests w') (icon_request self ico_url) = Inr r"
    by (simp add: urlopen_def)
  with ico show ended: "get_favicon env w' self =
      (Inr (), logged w' [icon_request self ico_url], self)"
    using get_favicon_request [OF pre, of ico_url w'] pre
    by (simp add: site_icon_None_update)
  show "site_icon (snd (snd (get_favicon env w' self))) = None"
    by (simp add: ended pre)
qed

theorem icon_errors_swallowed_witness:
  "isl (find_icon_href example_env ''<p>hello</p>'')
   \<and> maybe_get_icon example_env example_world (example_downloader ''https://example.com/plain'') =
       get_favicon example_env
         (logged example_world
           [icon_request (example_downloader ''https://example.com/plain'')
              (icon_url (example_downloader ''https://example.com/plain''))])
         (example_downloader ''https://example.com/plain'')
   \<and> http_open example_env
        (requests example_world @
          [icon_request (example_downloader ''https://example.com/linked'')
             (icon_url (example_downloader ''https://example.com/linked''))])
        (icon_request (example_downloader ''https://example.com/linked'')
           ''https://example.com/down'') = Inl (URLError ''Connection refused'')
   \<and> maybe_get_icon example_env example_world (example_downloader ''https://example.com/linked'') =
       (Inr (),
        logged example_world
          [icon_request (example_downloader ''https://example.com/linked'')
             (icon_url (example_downloader ''https://example.com/linked'')),
           icon_request (example_downloader ''https://example.com/linked'')
             ''https://example.com/down''],
        example_downloader ''https://example.com/linked'')
   \<and> http_open example_env
        (requests example_world @
          [icon_request (example_downloader ''https://example.com/broken'')
             (icon_url (example_downloader ''https://example.com/broken''))])
        (icon_request (example_downloader ''https://example.com/broken'')
           ''https://example.com/missing.png'')
        = Inr \<lparr> code = 404, msg = ''Not Found'', body = [] \<rparr>
   \<and> maybe_get_icon example_env example_world (example_downloader ''https://example.com/broken'') =
       (Inr (),
        logged example_world
          [icon_request (example_downloader ''https://example.com/broken'')
             (icon_url (example_downloader ''https://example.com/broken'')),
           icon_request (example_downloader ''https://example.com/broken'')
             ''https://example.com/missing.png''],
        example_downloader ''https://example.com/broken'')
   \<and> http_open example_env
        (requests example_world @
          [icon_request (example_downloader ''https://example.com/partial'')
             (icon_url (example_downloader ''https://example.com/partial''))])
        (icon_request (example_downloader ''https://example.com/partial'')
           ''https://example.com/nocontent.png'')
        = Inr \<lparr> code = 204, msg = ''No Content'', body = [] \<rparr>
   \<and> maybe_get_icon example_env example_world (example_downloader ''https://example.com/partial'') =
       (Inr (),
        logged example_world
          [icon_request (example_downloader ''https://example.com/partial'')
             (icon_url (example_downloader ''https://example.com/partial'')),
           icon_request (example_downloader ''https://example.com/partial'')
             ''https://example.com/nocontent.png''],
        example_downloader ''https://example.com/partial'')
   \<and> http_open example_env (requests example_world)
        (icon_request (example_downloader ''https://other.example/plain'')
           ''https://other.example/favicon.ico'')
        = Inr \<lparr> code = 204, msg = ''No Content'', body = [] \<rparr>
   \<and> get_favicon example_env example_world (example_downloader ''https://other.example/plain'') =
       (Inr (),
        logged example_world
          [icon_request (example_downloader ''https://other.example/plain'')
             ''https://other.example/favicon.ico''],
        example_downloader ''https://other.example/plain'')"
proof -
  have ok: "code \<lparr> code = 200, msg = ''OK'', body = b \<rparr> = 200" for b
    by simp
  have no_link: "isl (find_icon_href example_env ''<p>hello</p>'')"
    by (simp add: example_defs)
  then have no_link': "isl (find_icon_href example_env
      (body \<lparr> code = 200, msg = ''OK'', body = ''<p>hello</p>'' \<rparr>))"
    by simp
  from icon_errors_swallowed [OF example_plain_answered [of example_world] ok] no_link'
  have plain_run:
    "maybe_get_icon example_env example_world (example_downloader ''https://example.com/plain'') =
       get_favicon example_env
         (logged example_world
           [icon_request (example_downloader ''https://example.com/plain'')
              (icon_url (example_downloader ''https://example.com/plain''))])
         (example_downloader ''https://example.com/plain'')"
    by blast
  have href1: "find_icon_href example_env
      (body \<lparr> code = 200, msg = ''OK'', body = ''<link rel=icon href=https://example.com/down>'' \<rparr>)
        = Inr ''https://example.com/down''"
    by (simp add: example_defs)
  have req1: "Request_error example_env ''https://example.com/down'' = None"
    by (simp add: example_env_def)
  have refused: "http_open example_env
        (requests example_world @
          [icon_request (example_downloader ''https://example.com/linked'')
             (icon_url (example_downloader ''https://example.com/linked''))])
        (icon_request (example_downloader ''https://example.com/linked'')
           ''https://example.com/down'') = Inl (URLError ''Connection refused'')"
    by (simp add: example_defs)
  have caught: "is_URLError (URLError ''Connection refused'')"
    by simp
  from icon_errors_swallowed [OF example_linked_answered [of example_world] ok]
       href1 example_linked_resolve req1 refused caught
  have linked_run:
    "maybe_get_icon example_env example_world (example_downloader ''https://example.com/linked'') =
       (Inr (),
        logged example_world
          [icon_request (example_downloader ''https://example.com/linked'')
             (icon_url (example_downloader ''https://example.com/linked'')),
           icon_request (example_downloader ''https://example.com/linked'')
             ''https://example.com/down''],
        example_downloader ''https://example.com/linked'')"
    by blast
  have href2: "find_icon_href example_env
      (body \<lparr> code = 200, msg = ''OK'', body = ''<link rel=icon href=/missing.png>'' \<rparr>)
        = Inr ''/missing.png''"
    by (simp add: example_defs)
  have req2: "Request_error example_env ''https://example.com/missing.png'' = None"
    by (simp add: example_env_def)
  have missing: "http_open example_env
        (requests example_world @
          [icon_request (example_downloader ''https://example.com/broken'')
             (icon_url (example_downloader ''https://example.com/broken''))])
        (icon_request (example_downloader ''https://example.com/broken'')
           ''https://example.com/missing.png'')
        = Inr \<lparr> code = 404, msg = ''Not Found'', body = [] \<rparr>"
    by (simp add: example_defs)
  have not_ok: "code \<lparr> code = 404, msg = ''Not Found'', body = [] \<rparr> \<noteq> 200"
    by simp
  from icon_errors_swallowed [OF example_broken_answered [of example_world] ok]
       href2 example_broken_resolve req2 missing not_ok
  have broken_run:
    "maybe_get_icon example_env example_world (example_downloader ''https://example.com/broken'') =
       (Inr (),
        logged example_world
          [icon_request (example_downloader ''https://example.com/broken'')
             (icon_url (example_downloader ''https://example.com/broken'')),
           icon_request (example_downloader ''https://example.com/broken'')
             ''https://example.com/missing.png''],
        example_downloader ''https://example.com/broken'')"
    by blast
  have href3: "find_icon_href example_env
      (body \<lparr> code = 200, msg = ''OK'', body = ''<link rel=icon href=/nocontent.png>'' \<rparr>)
        = Inr ''/nocontent.png''"
    by (simp add: example_defs)
  have req3: "Request_error example_env ''https://example.com/nocontent.png'' = None"
    by (simp add: example_env_def)
  have nocontent: "http_open example_env
        (requests example_world @
          [icon_request (example_downloader ''https://example.com/partial'')
             (icon_url (example_downloader ''https://example.com/partial''))])
        (icon_request (example_downloader ''https://example.com/partial'')
           ''https://example.com/nocontent.png'')
        = Inr \<lparr> code = 204, msg = ''No Content'', body = [] \<rparr>"
    by (simp add: example_defs)
  have not_ok': "code \<lparr> code = 204, msg = ''No Content'', body = [] \<rparr> \<noteq> 200"
    by simp
  from icon_errors_swallowed [OF example_partial_answered [of example_world] ok]
       href3 example_partial_resolve req3 nocontent not_ok'
  have partial_run:
    "maybe_get_icon example_env example_world (example_downloader ''https://example.com/partial'') =
       (Inr (),
        logged example_world
          [icon_request (example_downloader ''https://example.com/partial'')
             (icon_url (example_downloader ''https://example.com/partial'')),
           icon_request (example_downloader ''https://example.com/partial'')
             ''https://example.com/nocontent.png''],
        example_downloader ''https://example.com/partial'')"
    by blast
  have req4: "Request_error example_env ''https://other.example/favicon.ico'' = None"
    by (simp add: example_env_def)
  have ico: "http_open example_env (requests example_world)
        (icon_request (example_downloader ''https://other.example/plain'')
           ''https://other.example/favicon.ico'')
        = Inr \<lparr> code = 204, msg = ''No Content'', body = [] \<rparr>"
    by (simp add: example_defs)
  have range: "200 < code \<lparr> code = 204, msg = ''No Content'', body = [] \<rparr>"
      "code \<lparr> code = 204, msg = ''No Content'', body = [] \<rparr> < 300"
    by simp_all
  from icon_errors_swallowed [OF example_other_answered [of example_world] ok]
       example_other_favicon req4 ico range
  have other_run:
    "get_favicon example_env example_world (example_downloader ''https://other.example/plain'') =
       (Inr (),
        logged example_world
          [icon_request (example_downloader ''https://other.example/plain'')
             ''https://other.example/favicon.ico''],
        example_downloader ''https://other.example/plain'')"
    by blast
  from no_link plain_run refused linked_run missing broken_run nocontent partial_run ico other_run
  show ?thesis
    by blast
qed

text \<open>
  C3 as stated fails. On a page with no icon link the lookup fails with \<^verbatim>\<open>TypeError\<close>;
  the error is swallowed, yet the call does not end with the icon \<^verbatim>\<open>None\<close>: the
  favicon is fetched and stored.
\<close>

theorem lookup_error_ends_with_icon:
  "find_icon_href example_env ''<p>hello</p>'' =
     Inl (TypeError ''NoneType object is not subscriptable'')
   \<and> maybe_get_icon example_env example_world (example_downloader ''https://example.com/plain'') =
     (Inr (),
      logged example_world
        [icon_request (example_downloader ''https://example.com/plain'')
           ''https://example.com/plain'',
         icon_request (example_downloader ''https://example.com/plain'')
           ''https://example.com/favicon.ico''],
      (example_downloader ''https://example.com/plain'')\<lparr>site_icon := Some ''ICO''\<rparr>)"
proof -
  have lookup: "find_icon_href example_env ''<p>hello</p>'' =
     Inl (TypeError ''NoneType object is not subscriptable'')"
    by (simp add: example_defs)
  from lookup example_plain_run [of example_world] show ?thesis
    by blast
qed

subsection \<open>get\_data\_from\_url\<close>

lemma str_404: "str 404 = ''404''"
  by code_simp

lemma str_204: "str 204 = ''204''"
  by code_simp

lemma get_data_from_url_rejected:
  "Request_error env url_in = Some e \<Longrightarrow> get_data_from_url env w self url_in = (Inl e, w, self)"
  by (simp add: get_data_from_url_def Request_def)

lemma get_data_from_url_opened:
  assumes "Request_error env url_in = None"
  shows "get_data_from_url env w self url_in =
     (case urlopen env (requests w)
             \<lparr> full_url = url_in, headers = [(''User-agent'', user_agent self)] \<rparr> of
        Inl e \<Rightarrow>
          (Inl e,
           logged w [\<lparr> full_url = url_in, headers = [(''User-agent'', user_agent self)] \<rparr>],
           self)
      | Inr r \<Rightarrow>
          (if code r = 200 then Inr (body r)
           else Inl (ValueError (str (code r) @ '': '' @ msg r)),
           logged w [\<lparr> full_url = url_in, headers = [(''User-agent'', user_agent self)] \<rparr>],
           self))"
  using assms
  by (simp add: get_data_from_url_def Request_ok call_urlopen_def add_header_def
        capitalize_User_agent logged_def split: sum.splits)

text \<open>
  C2. For every URL, \<open>get_data_from_url\<close> builds a request that carries the downloader's
  user agent as its \<^verbatim>\<open>User-agent\<close> header and opens it; the downloader is not changed.
  When the response has a status other than 200, an error is raised whose message has the
  status code, a colon and the reason phrase: the \<^verbatim>\<open>HTTPError\<close> that \<^verbatim>\<open>urlopen\<close>
  raises for a status not from 200 to 299, so for 404, with the message
  \<^verbatim>\<open>HTTP Error 404:\<close> and the reason, and the \<^verbatim>\<open>ValueError\<close> of line 259 for a
  status from 201 to 299. When the status is 200 the body of the response is returned.
  And where no response comes: a URL that \<^verbatim>\<open>Request\<close> rejects raises its error with no
  request made, and what the connection raises is raised to the caller.
\<close>

theorem get_data_from_url_status:
  "(\<forall>e. Request_error env url_in = Some e \<longrightarrow>
        get_data_from_url env w self url_in = (Inl e, w, self))
   \<and> (Request_error env url_in = None \<longrightarrow>
        requests (fst (snd (get_data_from_url env w self url_in))) =
          requests w @ [\<lparr> full_url = url_in, headers = [(''User-agent'', user_agent self)] \<rparr>]
      \<and> snd (snd (get_data_from_url env w self url_in)) = self
      \<and> (\<forall>e. http_open env (requests w)
                \<lparr> full_url = url_in, headers = [(''User-agent'', user_agent self)] \<rparr> = Inl e
            \<longrightarrow> fst (get_data_from_url env w self url_in) = Inl e)
      \<and> (\<forall>r. http_open env (requests w)
                \<lparr> full_url = url_in, headers = [(''User-agent'', user_agent self)] \<rparr> = Inr r
            \<longrightarrow> (code r = 200 \<longrightarrow> fst (get_data_from_url env w self url_in) = Inr (body r))
              \<and> (200 < code r \<and> code r < 300 \<longrightarrow>
                    fst (get_data_from_url env w self url_in) =
                      Inl (ValueError (str (code r) @ '': '' @ msg r)))
              \<and> (\<not> (200 \<le> code r \<and> code r < 300) \<longrightarrow>
                    fst (get_data_from_url env w self url_in) =
                      Inl (HTTPError (code r) (msg r)))
              \<and> (code r \<noteq> 200 \<longrightarrow>
                    (\<exists>e start. fst (get_data_from_url env w self url_in) = Inl e
                       \<and> str_exn e = start @ str (code r) @ '': '' @ msg r))
              \<and> (code r = 404 \<longrightarrow>
                    (\<exists>e. fst (get_data_from_url env w self url_in) = Inl e
                       \<and> str_exn e = ''HTTP Error 404: '' @ msg r))))"
proof (intro conjI allI impI)
  fix e
  assume "Request_error env url_in = Some e"
  then show "get_data_from_url env w self url_in = (Inl e, w, self)"
    by (rule get_data_from_url_rejected)
next
  assume built: "Request_error env url_in = None"
  show "requests (fst (snd (get_data_from_url env w self url_in))) =
          requests w @ [\<lparr> full_url = url_in, headers = [(''User-agent'', user_agent self)] \<rparr>]"
    unfolding get_data_from_url_opened [OF built]
    by (simp add: requests_logged split: sum.splits)
  show "snd (snd (get_data_from_url env w self url_in)) = self"
    unfolding get_data_from_url_opened [OF built]
    by (simp split: sum.splits)
next
  fix e
  assume built: "Request_error env url_in = None"
    and "http_open env (requests w)
           \<lparr> full_url = url_in, headers = [(''User-agent'', user_agent self)] \<rparr> = Inl e"
  then show "fst (get_data_from_url env w self url_in) = Inl e"
    unfolding get_data_from_url_opened [OF built]
    by (simp add: urlopen_def)
next
  fix r
  assume built: "Request_error env url_in = None"
    and answer: "http_open env (requests w)
           \<lparr> full_url = url_in, headers = [(''User-agent'', user_agent self)] \<rparr> = Inr r"
  have run: "fst (get_data_from_url env w self url_in) =
      (if \<not> (200 \<le> code r \<and> code r < 300) then Inl (HTTPError (code r) (msg r))
       else if code r = 200 then Inr (body r)
       else Inl (ValueError (str (code r) @ '': '' @ msg r)))"
    unfolding get_data_from_url_opened [OF built]
    using answer by (simp add: urlopen_def)
  {
    assume "code r = 200"
    then show "fst (get_data_from_url env w self url_in) = Inr (body r)"
      by (simp add: run)
  }
  {
    assume "200 < code r \<and> code r < 300"
    then show "fst (get_data_from_url env w self url_in) =
        Inl (ValueError (str (code r) @ '': '' @ msg r))"
      by (simp add: run)
  }
  {
    assume "\<not> (200 \<le> code r \<and> code r < 300)"
    then show "fst (get_data_from_url env w self url_in) = Inl (HTTPError (code r) (msg r))"
      by (simp add: run)
  }
  {
    assume other: "code r \<noteq> 200"
    show "\<exists>e start. fst (get_data_from_url env w self url_in) = Inl e
            \<and> str_exn e = start @ str (code r) @ '': '' @ msg r"
    proof (cases "200 \<le> code r \<and> code r < 300")
      case True
      with other have "fst (get_data_from_url env w self url_in) =
          Inl (ValueError (str (code r) @ '': '' @ msg r))"
        by (simp add: run)
      moreover have "str_exn (ValueError (str (code r) @ '': '' @ msg r)) =
          [] @ str (code r) @ '': '' @ msg r"
        by simp
      ultimately show ?thesis
        by blast
    next
      case False
      then have "fst (get_data_from_url env w self url_in) = Inl (HTTPError (code r) (msg r))"
        by (simp add: run)
      moreover have "str_exn (HTTPError (code r) (msg r)) =
          ''HTTP Error '' @ str (code r) @ '': '' @ msg r"
        by simp
      ultimately show ?thesis
        by blast
    qed
  }
  {
    assume "code r = 404"
    then have "fst (get_data_from_url env w self url_in) = Inl (HTTPError 404 (msg r))"
      by (simp add: run)
    moreover have "str_exn (HTTPError 404 (msg r)) = ''HTTP Error 404: '' @ msg r"
      by (simp add: str_404)
    ultimately show "\<exists>e. fst (get_data_from_url env w self url_in) = Inl e
        \<and> str_exn e = ''HTTP Error 404: '' @ msg r"
      by blast
  }
qed

theorem get_data_from_url_status_witness:
  "get_data_from_url example_env example_world (init :: string AudioDownloader) [] =
     (Inl (ValueError ''unknown url type''), example_world, init)
   \<and> fst (get_data_from_url example_env example_world (init :: string AudioDownloader)
          ''https://example.com/down'') = Inl (URLError ''Connection refused'')
   \<and> fst (get_data_from_url example_env example_world (init :: string AudioDownloader)
          ''https://example.com/nothing'') = Inl (HTTPError 404 ''Not Found'')
   \<and> str_exn (HTTPError 404 ''Not Found'') = ''HTTP Error 404: Not Found''
   \<and> fst (get_data_from_url example_env example_world (init :: string AudioDownloader)
          ''https://example.com/empty'') = Inl (ValueError ''204: No Content'')
   \<and> fst (get_data_from_url example_env example_world (init :: string AudioDownloader)
          ''https://example.com/icons/a.png'') = Inr ''PNG''
   \<and> requests (fst (snd (get_data_from_url example_env example_world
          (init :: string AudioDownloader) ''https://example.com/icons/a.png''))) =
       requests example_world @
         [\<lparr> full_url = ''https://example.com/icons/a.png'',
            headers = [(''User-agent'', user_agent (init :: string AudioDownloader))] \<rparr>]"
proof -
  let ?self = "init :: string AudioDownloader"
  have rejected: "Request_error example_env [] = Some (ValueError ''unknown url type'')"
    by (simp add: example_env_def)
  from get_data_from_url_status [of example_env "[]" example_world ?self] rejected
  have no_request: "get_data_from_url example_env example_world ?self [] =
     (Inl (ValueError ''unknown url type''), example_world, init)"
    by blast
  have built: "Request_error example_env u = None" if "u \<noteq> []" for u
    using that by (simp add: example_env_def)
  have refused: "http_open example_env (requests example_world)
     \<lparr> full_url = ''https://example.com/down'',
       headers = [(''User-agent'', user_agent ?self)] \<rparr> = Inl (URLError ''Connection refused'')"
    by (simp add: example_env_def example_server_def)
  have b1: "Request_error example_env ''https://example.com/down'' = None"
    by (simp add: built)
  from get_data_from_url_status [of example_env "''https://example.com/down''" example_world ?self]
       b1 refused
  have raised: "fst (get_data_from_url example_env example_world ?self
      ''https://example.com/down'') = Inl (URLError ''Connection refused'')"
    by blast
  have gone: "http_open example_env (requests example_world)
     \<lparr> full_url = ''https://example.com/nothing'',
       headers = [(''User-agent'', user_agent ?self)] \<rparr>
     = Inr \<lparr> code = 404, msg = ''Not Found'', body = [] \<rparr>"
    by (simp add: example_env_def example_server_def)
  have b2: "Request_error example_env ''https://example.com/nothing'' = None"
    by (simp add: built)
  have outside: "\<not> (200 \<le> code \<lparr> code = 404, msg = ''Not Found'', body = [] \<rparr>
      \<and> code \<lparr> code = 404, msg = ''Not Found'', body = [] \<rparr> < 300)"
    by simp
  from get_data_from_url_status
         [of example_env "''https://example.com/nothing''" example_world ?self]
       b2 gone outside
  have "fst (get_data_from_url example_env example_world ?self ''https://example.com/nothing'') =
      Inl (HTTPError (code \<lparr> code = 404, msg = ''Not Found'', body = [] \<rparr>)
             (msg \<lparr> code = 404, msg = ''Not Found'', body = [] \<rparr>))"
    by blast
  then have not_found: "fst (get_data_from_url example_env example_world ?self
      ''https://example.com/nothing'') = Inl (HTTPError 404 ''Not Found'')"
    by simp
  have message: "str_exn (HTTPError 404 ''Not Found'') = ''HTTP Error 404: Not Found''"
    by (simp add: str_404)
  have empty: "http_open example_env (requests example_world)
     \<lparr> full_url = ''https://example.com/empty'',
       headers = [(''User-agent'', user_agent ?self)] \<rparr>
     = Inr \<lparr> code = 204, msg = ''No Content'', body = [] \<rparr>"
    by (simp add: example_env_def example_server_def)
  have b3: "Request_error example_env ''https://example.com/empty'' = None"
    by (simp add: built)
  have inside: "200 < code \<lparr> code = 204, msg = ''No Content'', body = [] \<rparr>
      \<and> code \<lparr> code = 204, msg = ''No Content'', body = [] \<rparr> < 300"
    by simp
  from get_data_from_url_status
         [of example_env "''https://example.com/empty''" example_world ?self]
       b3 empty inside
  have "fst (get_data_from_url example_env example_world ?self ''https://example.com/empty'') =
      Inl (ValueError (str (code \<lparr> code = 204, msg = ''No Content'', body = [] \<rparr>) @ '': '' @
             msg \<lparr> code = 204, msg = ''No Content'', body = [] \<rparr>))"
    by blast
  then have no_content: "fst (get_data_from_url example_env example_world ?self
      ''https://example.com/empty'') = Inl (ValueError ''204: No Content'')"
    by (simp add: str_204)
  have served: "http_open example_env (requests example_world)
     \<lparr> full_url = ''https://example.com/icons/a.png'',
       headers = [(''User-agent'', user_agent ?self)] \<rparr>
     = Inr \<lparr> code = 200, msg = ''OK'', body = ''PNG'' \<rparr>"
    by (simp add: example_env_def example_server_def)
  have b4: "Request_error example_env ''https://example.com/icons/a.png'' = None"
    by (simp add: built)
  have is_ok: "code \<lparr> code = 200, msg = ''OK'', body = ''PNG'' \<rparr> = 200"
    by simp
  from get_data_from_url_status
         [of example_env "''https://example.com/icons/a.png''" example_world ?self]
       b4 served is_ok
  have "fst (get_data_from_url example_env example_world ?self
      ''https://example.com/icons/a.png'') =
        Inr (body \<lparr> code = 200, msg = ''OK'', body = ''PNG'' \<rparr>)"
    by blast
  then have returned: "fst (get_data_from_url example_env example_world ?self
      ''https://example.com/icons/a.png'') = Inr ''PNG''"
    by simp
  from get_data_from_url_status
         [of example_env "''https://example.com/icons/a.png''" example_world ?self] b4
  have sent: "requests (fst (snd (get_data_from_url example_env example_world ?self
          ''https://example.com/icons/a.png''))) =
       requests example_world @
         [\<lparr> full_url = ''https://example.com/icons/a.png'',
            headers = [(''User-agent'', user_agent ?self)] \<rparr>]"
    by blast
  from no_request raised not_found message no_content returned sent show ?thesis
    by blast
qed

subsection \<open>get\_file\_name with temporary files\<close>

lemma tmp_path_suffix: "\<exists>stem. tmp_path env suf i = stem @ suf"
proof -
  have "tmp_path env suf i =
      ((if tempdir env = [] \<or> last (tempdir env) = CHR ''/'' then tempdir env
        else tempdir env @ ''/'') @ ''tmp'' @ candidate_names env i) @ suf"
    by (simp add: tmp_path_def path_join_def)
  then show ?thesis
    by blast
qed

text \<open>A name that comes back is one of the candidates, was not there and is there now.\<close>

lemma mkstemp_inner_Inr:
  "mkstemp_inner env n suf w = (Inr p, w1) \<Longrightarrow>
     p \<notin> set (files w) \<and> files w1 = p # files w \<and> (\<exists>i. p = tmp_path env suf i)"
proof (induction n arbitrary: w)
  case 0
  then show ?case by simp
next
  case (Suc n)
  show ?case
  proof (cases "tmp_path env suf (names_drawn w) \<in> set (files w)")
    case True
    with Suc.prems
    have "mkstemp_inner env n suf (w\<lparr>names_drawn := Suc (names_drawn w)\<rparr>) = (Inr p, w1)"
      by (simp add: tmp_path_def Let_def)
    from Suc.IH [OF this] show ?thesis
      by simp
  next
    case False
    with Suc.prems show ?thesis
      by (auto simp: tmp_path_def Let_def split: option.splits)
  qed
qed

text \<open>
  The names are tried in turn: with the first \<open>k\<close> candidates taken and the next one free,
  that one is created, unless the system refuses.
\<close>

lemma mkstemp_inner_first_free:
  assumes "k < n"
    and "\<forall>j<k. tmp_path env suf (names_drawn w + j) \<in> set (files w)"
    and "tmp_path env suf (names_drawn w + k) \<notin> set (files w)"
    and "os_open_error env (tmp_path env suf (names_drawn w + k)) = None"
  shows "mkstemp_inner env n suf w =
           (Inr (tmp_path env suf (names_drawn w + k)),
            w\<lparr>names_drawn := names_drawn w + Suc k,
              files := tmp_path env suf (names_drawn w + k) # files w\<rparr>)"
  using assms
proof (induction k arbitrary: n w)
  case 0
  then obtain m where n: "n = Suc m"
    by (cases n) auto
  from 0 show ?case
    unfolding n by (simp add: tmp_path_def Let_def)
next
  case (Suc k)
  then obtain m where n: "n = Suc m" and m: "k < m"
    by (cases n) auto
  let ?w1 = "w\<lparr>names_drawn := Suc (names_drawn w)\<rparr>"
  have "0 < Suc k"
    by simp
  with Suc.prems(2) have "tmp_path env suf (names_drawn w + 0) \<in> set (files w)"
    by blast
  then have taken: "tmp_path env suf (names_drawn w) \<in> set (files w)"
    by simp
  have step: "mkstemp_inner env n suf w = mkstemp_inner env m suf ?w1"
    unfolding n using taken by (simp add: tmp_path_def Let_def)
  have rest: "\<forall>j<k. tmp_path env suf (names_drawn ?w1 + j) \<in> set (files ?w1)"
  proof (intro allI impI)
    fix j
    assume "j < k"
    then have "Suc j < Suc k"
      by simp
    with Suc.prems(2) have "tmp_path env suf (names_drawn w + Suc j) \<in> set (files w)"
      by blast
    then show "tmp_path env suf (names_drawn ?w1 + j) \<in> set (files ?w1)"
      by simp
  qed
  have free: "tmp_path env suf (names_drawn ?w1 + k) \<notin> set (files ?w1)"
    using Suc.prems(3) by simp
  have allowed: "os_open_error env (tmp_path env suf (names_drawn ?w1 + k)) = None"
    using Suc.prems(4) by simp
  from Suc.IH [OF m rest free allowed] show ?case
    unfolding step by simp
qed

lemma get_file_name_temp_Inr:
  assumes "use_temp_files self"
    and "get_file_name env w self = (Inr (p, q), w1, self1)"
  shows "q = p \<and> self1 = self
       \<and> mkstemp_inner env (TMP_MAX env) (file_extension self) w = (Inr p, w1)"
  using assms
  by (auto simp: get_file_name_def NamedTemporaryFile_def split: prod.splits sum.splits)

lemma get_file_name_first_free:
  assumes "use_temp_files self"
    and "k < TMP_MAX env"
    and "\<forall>j<k. tmp_path env (file_extension self) (names_drawn w + j) \<in> set (files w)"
    and "tmp_path env (file_extension self) (names_drawn w + k) \<notin> set (files w)"
    and "os_open_error env (tmp_path env (file_extension self) (names_drawn w + k)) = None"
  shows "get_file_name env w self =
           (Inr (tmp_path env (file_extension self) (names_drawn w + k),
                 tmp_path env (file_extension self) (names_drawn w + k)),
            w\<lparr>names_drawn := names_drawn w + Suc k,
              files := tmp_path env (file_extension self) (names_drawn w + k) # files w\<rparr>,
            self)"
  using assms(1) mkstemp_inner_first_free [OF assms(2-5)]
  by (simp add: get_file_name_def NamedTemporaryFile_def)

text \<open>
  C9. With \<open>use_temp_files\<close> set, \<open>get_file_name\<close> creates a temporary file whose name was
  not taken and ends with the downloader's file extension, and returns its path as both
  components of the pair: it does so as soon as one of the \<open>TMP_MAX\<close> candidate names it
  tries is free and the system lets the file be created, and the path is that of the first
  free candidate. A second call that returns gives a path different from the first.
\<close>

theorem get_file_name_temp:
  assumes "use_temp_files self"
  shows "(\<forall>k. k < TMP_MAX env
            \<and> (\<forall>j<k. tmp_path env (file_extension self) (names_drawn w + j) \<in> set (files w))
            \<and> tmp_path env (file_extension self) (names_drawn w + k) \<notin> set (files w)
            \<and> os_open_error env (tmp_path env (file_extension self) (names_drawn w + k)) = None
          \<longrightarrow> fst (get_file_name env w self) =
                Inr (tmp_path env (file_extension self) (names_drawn w + k),
                     tmp_path env (file_extension self) (names_drawn w + k)))
       \<and> (\<forall>p q w1 self1.
            get_file_name env w self = (Inr (p, q), w1, self1)
          \<longrightarrow> q = p \<and> self1 = self
              \<and> (\<exists>stem. p = stem @ file_extension self)
              \<and> p \<notin> set (files w) \<and> p \<in> set (files w1)
              \<and> (\<forall>p2 q2 w2 self2.
                    get_file_name env w1 self1 = (Inr (p2, q2), w2, self2)
                  \<longrightarrow> q2 = p2 \<and> p2 \<noteq> p))"
proof (intro conjI allI impI)
  fix k
  assume "k < TMP_MAX env
            \<and> (\<forall>j<k. tmp_path env (file_extension self) (names_drawn w + j) \<in> set (files w))
            \<and> tmp_path env (file_extension self) (names_drawn w + k) \<notin> set (files w)
            \<and> os_open_error env (tmp_path env (file_extension self) (names_drawn w + k)) = None"
  then show "fst (get_file_name env w self) =
                Inr (tmp_path env (file_extension self) (names_drawn w + k),
                     tmp_path env (file_extension self) (names_drawn w + k))"
    using get_file_name_first_free [OF assms, of k env w] by simp
next
  fix p q w1 self1
  assume first: "get_file_name env w self = (Inr (p, q), w1, self1)"
  from get_file_name_temp_Inr [OF assms first]
  have same: "q = p" and kept: "self1 = self"
    and made: "mkstemp_inner env (TMP_MAX env) (file_extension self) w = (Inr p, w1)"
    by simp_all
  from mkstemp_inner_Inr [OF made]
  have fresh: "p \<notin> set (files w)" and there: "files w1 = p # files w"
    and cand: "\<exists>i. p = tmp_path env (file_extension self) i"
    by simp_all
  show "q = p" by (rule same)
  show "self1 = self" by (rule kept)
  show "\<exists>stem. p = stem @ file_extension self"
    using cand tmp_path_suffix by metis
  show "p \<notin> set (files w)" by (rule fresh)
  show "p \<in> set (files w1)" by (simp add: there)
  fix p2 q2 w2 self2
  assume second: "get_file_name env w1 self1 = (Inr (p2, q2), w2, self2)"
  from get_file_name_temp_Inr [OF assms second [unfolded kept]]
  have same2: "q2 = p2"
    and made2: "mkstemp_inner env (TMP_MAX env) (file_extension self) w1 = (Inr p2, w2)"
    by simp_all
  from mkstemp_inner_Inr [OF made2] have "p2 \<notin> set (files w1)"
    by simp
  with there show "q2 = p2" and "p2 \<noteq> p"
    using same2 by auto
qed

lemma example_tmp_paths:
  "tmp_path example_env ''.wav'' 0 = ''/tmp/tmp0.wav''"
  "tmp_path example_env ''.wav'' (Suc 0) = ''/tmp/tmp1.wav''"
  "tmp_path example_env ''.wav'' 2 = ''/tmp/tmp2.wav''"
  by code_simp+

theorem get_file_name_temp_witness:
  "use_temp_files ((init :: string AudioDownloader)\<lparr>use_temp_files := True\<rparr>)
   \<and> get_file_name example_env example_world
        ((init :: string AudioDownloader)\<lparr>use_temp_files := True\<rparr>) =
       (Inr (''/tmp/tmp1.wav'', ''/tmp/tmp1.wav''),
        example_world\<lparr>names_drawn := 2, files := [''/tmp/tmp1.wav'', ''/tmp/tmp0.wav'']\<rparr>,
        (init :: string AudioDownloader)\<lparr>use_temp_files := True\<rparr>)
   \<and> get_file_name example_env
        (example_world\<lparr>names_drawn := 2, files := [''/tmp/tmp1.wav'', ''/tmp/tmp0.wav'']\<rparr>)
        ((init :: string AudioDownloader)\<lparr>use_temp_files := True\<rparr>) =
       (Inr (''/tmp/tmp2.wav'', ''/tmp/tmp2.wav''),
        example_world\<lparr>names_drawn := 3,
          files := [''/tmp/tmp2.wav'', ''/tmp/tmp1.wav'', ''/tmp/tmp0.wav'']\<rparr>,
        (init :: string AudioDownloader)\<lparr>use_temp_files := True\<rparr>)
   \<and> ''/tmp/tmp2.wav'' \<noteq> ''/tmp/tmp1.wav''"
proof -
  let ?self = "(init :: string AudioDownloader)\<lparr>use_temp_files := True\<rparr>"
  let ?w1 = "example_world\<lparr>names_drawn := 2, files := [''/tmp/tmp1.wav'', ''/tmp/tmp0.wav'']\<rparr>"
  let ?w2 = "example_world\<lparr>names_drawn := 3,
          files := [''/tmp/tmp2.wav'', ''/tmp/tmp1.wav'', ''/tmp/tmp0.wav'']\<rparr>"
  have temp: "use_temp_files ?self"
    by simp
  have ext: "file_extension ?self = ''.wav''"
    by (simp add: init_def)
  have tries: "1 < TMP_MAX example_env" "0 < TMP_MAX example_env"
    by (simp_all add: example_env_def)
  have allowed: "os_open_error example_env f = None" for f
    by (simp add: example_env_def)
  have first: "get_file_name example_env example_world ?self =
      (Inr (''/tmp/tmp1.wav'', ''/tmp/tmp1.wav''), ?w1, ?self)"
    using get_file_name_first_free [OF temp tries(1), of example_world]
    by (simp add: ext example_tmp_paths example_world_def allowed)
  have second: "get_file_name example_env ?w1 ?self =
      (Inr (''/tmp/tmp2.wav'', ''/tmp/tmp2.wav''), ?w2, ?self)"
    using get_file_name_first_free [OF temp tries(2), of ?w1]
    by (simp add: ext example_tmp_paths example_world_def allowed)
  from get_file_name_temp [OF temp, of example_env example_world] first second
  have "''/tmp/tmp2.wav'' \<noteq> ''/tmp/tmp1.wav''"
    by blast
  with temp first second show ?thesis
    by blast
qed

end
